theory Spec2Isabelle
  imports Complex_Main "HOL-Library.Sublist"
begin

section \<open>Python values, errors and the external world\<close>

text \<open>
  The script \<^verbatim>\<open>finetune.py\<close> is glue: it reads a YAML file, looks values up in the
  loaded mapping, calls library and repository routines and passes their results on.
  The model keeps exactly that: Python values as a datatype, every exception as an
  \<open>error\<close> value, and every call that leaves the file as an \<open>event\<close> appended to a
  trace, in the order in which Python evaluates the calls.
\<close>

text \<open>What \<^verbatim>\<open>yaml.load\<close> and \<^verbatim>\<open>torch.load\<close> hand to the script. Mapping keys are
  strings: the script only ever looks string keys up.\<close>

datatype pyval =
    PNone
  | PBool bool
  | PInt int
  | PFloat real
  | PStr string
  | PList "pyval list"
  | PDict "(string \<times> pyval) list"

text \<open>\<open>KeyError\<close>, \<open>TypeError\<close>, \<open>IndexError\<close> and \<open>AttributeError\<close> are raised by
  Python itself while it evaluates an expression of the script; \<open>SystemExit\<close> is how
  \<^verbatim>\<open>argparse\<close> leaves the program; \<open>Raised\<close> is an exception coming out of a
  library or repository routine, named by an opaque label.\<close>

datatype error =
    KeyError string
  | TypeError
  | IndexError
  | AttributeError string string
  | SystemExit
  | Raised string

text \<open>\<^verbatim>\<open>v[k]\<close> for a string key: a mapping is searched, anything else loaded from
  YAML cannot be subscripted by a string.\<close>

fun getitem :: "pyval \<Rightarrow> string \<Rightarrow> error + pyval" where
  "getitem (PDict kvs) k = (case map_of kvs k of None \<Rightarrow> Inl (KeyError k) | Some v \<Rightarrow> Inr v)"
| "getitem _ k = Inl TypeError"

text \<open>\<^verbatim>\<open>k in v\<close>: key membership for a mapping, element membership for a list,
  substring test for a string, \<open>TypeError\<close> for a value that is not iterable.\<close>

fun contains :: "string \<Rightarrow> pyval \<Rightarrow> error + bool" where
  "contains k (PDict kvs) = Inr (map_of kvs k \<noteq> None)"
| "contains k (PList vs) = Inr (PStr k \<in> set vs)"
| "contains k (PStr s) = Inr (sublist k s)"
| "contains k _ = Inl TypeError"

text \<open>\<^verbatim>\<open>config[section][key]\<close>: two subscripts, the section first.\<close>

definition getitem2 :: "pyval \<Rightarrow> string \<Rightarrow> string \<Rightarrow> error + pyval" where
  "getitem2 config section k =
     (case getitem config section of Inl e \<Rightarrow> Inl e | Inr sec \<Rightarrow> getitem sec k)"

subsection \<open>Modules and their parameters\<close>

text \<open>A \<^verbatim>\<open>torch.nn.Module\<close>: its class name, the parameters registered on it
  (identified by numbers) and its named child modules in registration order. A
  \<^verbatim>\<open>ModuleList\<close> is a module whose children are its elements.\<close>

datatype module = Module (cls: string) (own_params: "nat list") (children: "(string \<times> module) list")

fun all_params :: "module \<Rightarrow> nat list" where
  "all_params (Module c ps cs) = ps @ concat (map (\<lambda>nm. all_params (snd nm)) cs)"

text \<open>\<^verbatim>\<open>module.parameters()\<close>: every parameter of the module and of its
  descendants, each one once, at its first occurrence.\<close>

definition parameters :: "module \<Rightarrow> nat list" where
  "parameters m = rev (remdups (rev (all_params m)))"

text \<open>\<^verbatim>\<open>module.name\<close> for a name that is no plain attribute:
  \<^verbatim>\<open>Module.__getattr__\<close> finds a registered child or raises \<open>AttributeError\<close> with
  the class of the receiver and the name.\<close>

definition getattr :: "module \<Rightarrow> string \<Rightarrow> error + module" where
  "getattr m name =
     (case map_of (children m) name of
        None \<Rightarrow> Inl (AttributeError (cls m) name)
      | Some c \<Rightarrow> Inr c)"

text \<open>\<^verbatim>\<open>container[-1]\<close>: the last element of a \<^verbatim>\<open>ModuleList\<close> (or
  \<^verbatim>\<open>Sequential\<close>), \<open>IndexError\<close> when it is empty, \<open>TypeError\<close> for a module
  that is not subscriptable.\<close>

definition getitem_last :: "module \<Rightarrow> error + module" where
  "getitem_last m =
     (if cls m = ''ModuleList'' \<or> cls m = ''Sequential'' then
        (case children m of [] \<Rightarrow> Inl IndexError | _ \<Rightarrow> Inr (snd (last (children m))))
      else Inl TypeError)"

text \<open>\<^verbatim>\<open>DistributedDataParallel(net, ...)\<close> registers the wrapped network as its
  single child \<^verbatim>\<open>module\<close> and owns no parameter itself.\<close>

definition DDP :: "module \<Rightarrow> module" where
  "DDP net = Module ''DistributedDataParallel'' [] [(''module'', net)]"

subsection \<open>Objects built by external constructors, and calls\<close>

text \<open>The loader, data set, sampler, optimizer, scheduler and forcing term are opaque
  to the script; each is represented by the call that built it, with its arguments.\<close>

datatype obj =
    NSLoader pyval "pyval option" pyval pyval pyval pyval pyval pyval
  | Dataset obj pyval pyval pyval
  | Sampler obj pyval bool
  | DataLoader obj pyval obj bool
  | Adam "nat list" "real \<times> real" pyval
  | MultiStepLR obj pyval pyval
  | Forcing obj nat

text \<open>
  The constructors of \<open>obj\<close>, with the keyword arguments of the source in order:
  \<^item> \<open>NSLoader datapath1 datapath2 nx nt sub sub_t N t_interval\<close>;
  \<^item> \<open>Dataset loader n_sample start train\<close> is \<^verbatim>\<open>loader.make_dataset(...)\<close>;
  \<^item> \<open>Sampler trainset shuffle distributed\<close> is \<^verbatim>\<open>data_sampler(...)\<close>;
  \<^item> \<open>DataLoader trainset batch_size sampler drop_last\<close>;
  \<^item> \<open>Adam params betas lr\<close>;
  \<^item> \<open>MultiStepLR optimizer milestones gamma\<close>;
  \<^item> \<open>Forcing loader rank\<close> is \<^verbatim>\<open>get_forcing(loader.S).to(rank)\<close>.
\<close>

datatype event =
    Call_setup nat int
  | Print_running nat
  | Call_open string
  | Call_yaml_load string
  | New obj
  | Call_FNN3d pyval pyval pyval pyval pyval
  | Call_to module nat
  | Call_torch_load pyval
  | Call_load_state_dict module pyval
  | Print_weights_loaded pyval
  | Call_DDP module "nat list" bool
  | Call_requires_grad module bool
  | Call_train module obj obj obj obj obj pyval nat bool pyval pyval bool
  | Call_cleanup
  | Print_done nat

text \<open>What the script cannot decide: whether an external call raises, and what the
  three calls whose results the script inspects return.\<close>

record env =
  raises :: "event \<Rightarrow> error option"
  yaml_load :: "string \<Rightarrow> pyval"
  FNN3d :: "pyval \<Rightarrow> pyval \<Rightarrow> pyval \<Rightarrow> pyval \<Rightarrow> pyval \<Rightarrow> module"
  torch_load :: "pyval \<Rightarrow> pyval"

text \<open>The state of one process: the calls made so far and the \<^verbatim>\<open>requires_grad\<close>
  flag of every parameter.\<close>

record world =
  trace :: "event list"
  grad :: "nat \<Rightarrow> bool"

text \<open>A freshly started process: nothing called yet; a new parameter requires
  gradients.\<close>

definition world0 :: world where
  "world0 = \<lparr>trace = [], grad = (\<lambda>p. True)\<rparr>"

subsection \<open>Sequencing with exceptions\<close>

type_synonym 'a prog = "world \<Rightarrow> (error + 'a) \<times> world"

definition ret :: "'a \<Rightarrow> 'a prog" where
  "ret x = (\<lambda>w. (Inr x, w))"

definition lift :: "error + 'a \<Rightarrow> 'a prog" where
  "lift r = (\<lambda>w. (r, w))"

text \<open>Statement after statement: an exception ends the run where it is raised, since
  the script has no \<^verbatim>\<open>try\<close>.\<close>

definition bnd :: "'a prog \<Rightarrow> ('a \<Rightarrow> 'b prog) \<Rightarrow> 'b prog" where
  "bnd m f = (\<lambda>w. case m w of (Inl e, w') \<Rightarrow> (Inl e, w') | (Inr x, w') \<Rightarrow> f x w')"

text \<open>An external call is recorded, then raises or returns.\<close>

definition call :: "env \<Rightarrow> event \<Rightarrow> unit prog" where
  "call E ev = (\<lambda>w.
     let w' = w\<lparr>trace := trace w @ [ev]\<rparr>
     in case raises E ev of Some e \<Rightarrow> (Inl e, w') | None \<Rightarrow> (Inr (), w'))"

text \<open>Reading and changing the state of the process.\<close>

definition gets :: "(world \<Rightarrow> 'a) \<Rightarrow> 'a prog" where
  "gets f = (\<lambda>w. (Inr (f w), w))"

definition modify :: "(world \<Rightarrow> world) \<Rightarrow> unit prog" where
  "modify f = (\<lambda>w. (Inr (), f w))"

definition new :: "env \<Rightarrow> obj \<Rightarrow> obj prog" where
  "new E ob = bnd (call E (New ob)) (\<lambda>_. ret ob)"

section \<open>The worker: \<^verbatim>\<open>subprocess_fn\<close>\<close>

text \<open>The namespace that \<^verbatim>\<open>parse_args\<close> returns has the three parsed options;
  line 111 of the script adds the attribute \<^verbatim>\<open>distributed\<close>.\<close>

record namespace =
  config_path :: "string option"
  log :: bool
  num_gpus :: int

record args = namespace +
  distributed :: bool

text \<open>Modelled from the spec: \<^verbatim>\<open>train_utils.utils.requires_grad\<close> is not among the
  sources. The spec calls the step a parameter-freezing policy that selectively freezes
  parameters: the helper gives the flag to every parameter of the module it receives.\<close>

definition requires_grad :: "env \<Rightarrow> module \<Rightarrow> bool \<Rightarrow> unit prog" where
  "requires_grad E m flag =
     bnd (call E (Call_requires_grad m flag)) (\<lambda>_.
     modify (\<lambda>w. w\<lparr>grad := (\<lambda>p. if p \<in> set (parameters m) then flag else grad w p)\<rparr>))"

text \<open>Lines 25 to 27: \<^verbatim>\<open>open(None)\<close> is a \<open>TypeError\<close>.\<close>

definition load_config :: "env \<Rightarrow> args \<Rightarrow> pyval prog" where
  "load_config E a =
     (case config_path a of
        None \<Rightarrow> lift (Inl TypeError)
      | Some config_file \<Rightarrow>
          bnd (call E (Call_open config_file)) (\<lambda>_.
          bnd (call E (Call_yaml_load config_file)) (\<lambda>_.
          ret (yaml_load E config_file))))"

text \<open>Lines 30 to 42: the loader, with or without the second data path. Keyword
  arguments are evaluated from left to right, so the first missing key raises.\<close>

definition construct_loader :: "env \<Rightarrow> pyval \<Rightarrow> obj prog" where
  "construct_loader E data_config =
     bnd (lift (contains ''datapath2'' data_config)) (\<lambda>has2.
     if has2 then
       bnd (lift (getitem data_config ''datapath'')) (\<lambda>datapath1.
       bnd (lift (getitem data_config ''datapath2'')) (\<lambda>datapath2.
       bnd (lift (getitem data_config ''nx'')) (\<lambda>nx.
       bnd (lift (getitem data_config ''nt'')) (\<lambda>nt.
       bnd (lift (getitem data_config ''sub'')) (\<lambda>sub.
       bnd (lift (getitem data_config ''sub_t'')) (\<lambda>sub_t.
       bnd (lift (getitem data_config ''total_num'')) (\<lambda>N.
       bnd (lift (getitem data_config ''time_interval'')) (\<lambda>t_interval.
       new E (NSLoader datapath1 (Some datapath2) nx nt sub sub_t N t_interval)))))))))
     else
       bnd (lift (getitem data_config ''datapath'')) (\<lambda>datapath1.
       bnd (lift (getitem data_config ''nx'')) (\<lambda>nx.
       bnd (lift (getitem data_config ''nt'')) (\<lambda>nt.
       bnd (lift (getitem data_config ''sub'')) (\<lambda>sub.
       bnd (lift (getitem data_config ''sub_t'')) (\<lambda>sub_t.
       bnd (lift (getitem data_config ''total_num'')) (\<lambda>N.
       bnd (lift (getitem data_config ''time_interval'')) (\<lambda>t_interval.
       new E (NSLoader datapath1 None nx nt sub sub_t N t_interval)))))))))"

text \<open>Lines 44 to 51: the training set and its \<^verbatim>\<open>DataLoader\<close>.\<close>

definition construct_train_loader :: "env \<Rightarrow> args \<Rightarrow> pyval \<Rightarrow> pyval \<Rightarrow> obj \<Rightarrow> obj prog" where
  "construct_train_loader E a config data_config loader =
     bnd (lift (getitem data_config ''n_sample'')) (\<lambda>n_sample.
     bnd (lift (getitem data_config ''offset'')) (\<lambda>offset.
     bnd (lift (getitem data_config ''shuffle'')) (\<lambda>train.
     bnd (new E (Dataset loader n_sample offset train)) (\<lambda>trainset.
     bnd (lift (getitem2 config ''train'' ''batchsize'')) (\<lambda>batchsize.
     bnd (lift (getitem data_config ''shuffle'')) (\<lambda>shuffle.
     bnd (new E (Sampler trainset shuffle (distributed a))) (\<lambda>sampler.
     new E (DataLoader trainset batchsize sampler True))))))))"

text \<open>Lines 54 to 58: the network, moved to the device of this rank
  (\<^verbatim>\<open>Module.to\<close> returns the module itself).\<close>

definition construct_model :: "env \<Rightarrow> nat \<Rightarrow> pyval \<Rightarrow> module prog" where
  "construct_model E rank config =
     bnd (lift (getitem2 config ''model'' ''modes1'')) (\<lambda>modes1.
     bnd (lift (getitem2 config ''model'' ''modes2'')) (\<lambda>modes2.
     bnd (lift (getitem2 config ''model'' ''modes3'')) (\<lambda>modes3.
     bnd (lift (getitem2 config ''model'' ''fc_dim'')) (\<lambda>fc_dim.
     bnd (lift (getitem2 config ''model'' ''layers'')) (\<lambda>layers.
     bnd (call E (Call_FNN3d modes1 modes2 modes3 fc_dim layers)) (\<lambda>_.
     bnd (call E (Call_to (FNN3d E modes1 modes2 modes3 fc_dim layers) rank)) (\<lambda>_.
     ret (FNN3d E modes1 modes2 modes3 fc_dim layers))))))))"

text \<open>Lines 60 to 64: the optional checkpoint.\<close>

definition load_ckpt :: "env \<Rightarrow> pyval \<Rightarrow> module \<Rightarrow> unit prog" where
  "load_ckpt E config net =
     bnd (lift (getitem config ''train'')) (\<lambda>train_config.
     bnd (lift (contains ''ckpt'' train_config)) (\<lambda>has_ckpt.
     if has_ckpt then
       bnd (lift (getitem2 config ''train'' ''ckpt'')) (\<lambda>ckpt_path.
       bnd (call E (Call_torch_load ckpt_path)) (\<lambda>_.
       bnd (lift (getitem (torch_load E ckpt_path) ''model'')) (\<lambda>state_dict.
       bnd (call E (Call_load_state_dict net state_dict)) (\<lambda>_.
       call E (Print_weights_loaded ckpt_path)))))
     else ret ()))"

text \<open>Lines 66 and 67: in a distributed run the variable \<^verbatim>\<open>model\<close> is rebound to the
  wrapper. The result is the value of \<^verbatim>\<open>model\<close> from line 68 on.\<close>

definition wrap_model :: "env \<Rightarrow> nat \<Rightarrow> args \<Rightarrow> module \<Rightarrow> module prog" where
  "wrap_model E rank a net =
     (if distributed a then
        bnd (call E (Call_DDP net [rank] False)) (\<lambda>_. ret (DDP net))
      else ret net)"

text \<open>Lines 73 to 81: freeze everything, re-enable four submodules, collect the
  parameters that still require gradients. The attributes are looked up on whatever
  \<^verbatim>\<open>model\<close> is bound to.\<close>

definition finetune_params :: "env \<Rightarrow> module \<Rightarrow> nat list prog" where
  "finetune_params E model =
     bnd (requires_grad E model False) (\<lambda>_.
     bnd (lift (getattr model ''sp_convs'')) (\<lambda>sp_convs.
     bnd (lift (getitem_last sp_convs)) (\<lambda>sp_conv.
     bnd (requires_grad E sp_conv True) (\<lambda>_.
     bnd (lift (getattr model ''ws'')) (\<lambda>ws.
     bnd (lift (getitem_last ws)) (\<lambda>w_last.
     bnd (requires_grad E w_last True) (\<lambda>_.
     bnd (lift (getattr model ''fc1'')) (\<lambda>fc1.
     bnd (requires_grad E fc1 True) (\<lambda>_.
     bnd (lift (getattr model ''fc2'')) (\<lambda>fc2.
     bnd (requires_grad E fc2 True) (\<lambda>_.
     gets (\<lambda>w. filter (grad w) (parameters model)))))))))))))"

text \<open>Lines 83 to 97: optimizer, scheduler, forcing term, and the one call of the
  external training routine.\<close>

definition run_training :: "env \<Rightarrow> nat \<Rightarrow> args \<Rightarrow> pyval \<Rightarrow> obj \<Rightarrow> obj \<Rightarrow> module \<Rightarrow> nat list \<Rightarrow> unit prog" where
  "run_training E rank a config loader train_loader model params_to_update =
     bnd (lift (getitem2 config ''train'' ''base_lr'')) (\<lambda>lr.
     bnd (new E (Adam params_to_update (9 / 10, 999 / 1000) lr)) (\<lambda>optimizer.
     bnd (lift (getitem2 config ''train'' ''milestones'')) (\<lambda>milestones.
     bnd (lift (getitem2 config ''train'' ''scheduler_gamma'')) (\<lambda>gamma.
     bnd (new E (MultiStepLR optimizer milestones gamma)) (\<lambda>scheduler.
     bnd (new E (Forcing loader rank)) (\<lambda>forcing.
     bnd (lift (getitem2 config ''others'' ''project'')) (\<lambda>project.
     bnd (lift (getitem2 config ''others'' ''group'')) (\<lambda>group.
     call E (Call_train model loader train_loader optimizer scheduler forcing config
               rank (log a) project group True)))))))))"

text \<open>Lines 21 and 22, and lines 99 and 100: a distributed worker joins the process
  group first and leaves it last.\<close>

definition join_group :: "env \<Rightarrow> nat \<Rightarrow> args \<Rightarrow> unit prog" where
  "join_group E rank a =
     (if distributed a then call E (Call_setup rank (num_gpus a)) else ret ())"

definition leave_group :: "env \<Rightarrow> args \<Rightarrow> unit prog" where
  "leave_group E a = (if distributed a then call E Call_cleanup else ret ())"

text \<open>Lines 23 to 67: everything up to the model that the freezing step receives.\<close>

definition build :: "env \<Rightarrow> nat \<Rightarrow> args \<Rightarrow> (pyval \<times> obj \<times> obj \<times> module) prog" where
  "build E rank a =
     bnd (call E (Print_running rank)) (\<lambda>_.
     bnd (load_config E a) (\<lambda>config.
     bnd (lift (getitem config ''data'')) (\<lambda>data_config.
     bnd (construct_loader E data_config) (\<lambda>loader.
     bnd (construct_train_loader E a config data_config loader) (\<lambda>train_loader.
     bnd (construct_model E rank config) (\<lambda>net.
     bnd (load_ckpt E config net) (\<lambda>_.
     bnd (wrap_model E rank a net) (\<lambda>model.
     ret (config, loader, train_loader, model)))))))))"

text \<open>Lines 73 to 101: the freezing step, the training, the end of the worker.\<close>

definition finetune :: "env \<Rightarrow> nat \<Rightarrow> args \<Rightarrow> pyval \<times> obj \<times> obj \<times> module \<Rightarrow> unit prog" where
  "finetune E rank a = (\<lambda>(config, loader, train_loader, model).
     bnd (finetune_params E model) (\<lambda>params_to_update.
     bnd (run_training E rank a config loader train_loader model params_to_update) (\<lambda>_.
     bnd (leave_group E a) (\<lambda>_.
     call E (Print_done rank)))))"

text \<open>The whole function, lines 20 to 101.\<close>

definition subprocess_fn :: "env \<Rightarrow> nat \<Rightarrow> args \<Rightarrow> unit prog" where
  "subprocess_fn E rank a =
     bnd (join_group E rank a) (\<lambda>_.
     bnd (build E rank a) (finetune E rank a))"

section \<open>The main block\<close>

subsection \<open>The command line\<close>

text \<open>
  Lines 106 to 110 build an \<^verbatim>\<open>ArgumentParser\<close> and call \<^verbatim>\<open>parse_args\<close> on the
  command line. The parser starts with the help option that \<^verbatim>\<open>argparse\<close> adds by
  default; the three \<^verbatim>\<open>add_argument\<close> calls add one action each. The model follows
  \<^verbatim>\<open>argparse\<close> on what it accepts: exact option strings, \<^verbatim>\<open>--name=value\<close>,
  unambiguous abbreviations of long options, a value taken from the next token when
  that token does not look like an option, \<^verbatim>\<open>int\<close> conversion of a signed run of
  ASCII digits. Every way out of \<^verbatim>\<open>parse_args\<close> other than a namespace (usage error
  or help) is \<open>SystemExit\<close>. The bare separator \<^verbatim>\<open>--\<close>, tokens with blanks and the
  further spellings that \<^verbatim>\<open>int\<close> accepts are not modelled: the model exits on them.
\<close>

datatype action = Help | Store_config_path | Store_true_log | Store_num_gpus

definition option_strings :: "(string \<times> action) list" where
  "option_strings =
     [(''-h'', Help), (''--help'', Help),
      (''--config_path'', Store_config_path),
      (''--log'', Store_true_log),
      (''--num_gpus'', Store_num_gpus)]"

definition digit_val :: "char \<Rightarrow> nat option" where
  "digit_val = map_of
     [(CHR ''0'', 0), (CHR ''1'', 1), (CHR ''2'', 2), (CHR ''3'', 3), (CHR ''4'', 4),
      (CHR ''5'', 5), (CHR ''6'', 6), (CHR ''7'', 7), (CHR ''8'', 8), (CHR ''9'', 9)]"

definition is_digit :: "char \<Rightarrow> bool" where
  "is_digit c = (digit_val c \<noteq> None)"

text \<open>\<^verbatim>\<open>argparse\<close>'s pattern for negative numbers, \<^verbatim>\<open>^-\d+$|^-\d*\.\d+$\<close>.\<close>

definition negative_number :: "string \<Rightarrow> bool" where
  "negative_number t =
     (case t of
        [] \<Rightarrow> False
      | c # r \<Rightarrow> c = CHR ''-'' \<and>
          (let a = takeWhile is_digit r; b = dropWhile is_digit r
           in (a \<noteq> [] \<and> b = []) \<or>
              (case b of [] \<Rightarrow> False
               | d # f \<Rightarrow> d = CHR ''.'' \<and> f \<noteq> [] \<and> list_all is_digit f)))"

datatype tok = Positional | Unrecognized | Ambiguous | Option action "string option"

text \<open>How one token of the command line is read: as a value (\<open>Positional\<close>), as one
  of the parser's options, possibly with a value after \<^verbatim>\<open>=\<close>, as an ambiguous
  abbreviation, or as an option that the parser does not know.\<close>

definition parse_optional :: "string \<Rightarrow> tok" where
  "parse_optional t =
     (if t = [] then Positional
      else if hd t \<noteq> CHR ''-'' then Positional
      else
        (case map_of option_strings t of
           Some a \<Rightarrow> Option a None
         | None \<Rightarrow>
             (if length t = 1 then Positional
              else
                (let name = takeWhile (\<lambda>c. c \<noteq> CHR ''='') t;
                     explicit = (if CHR ''='' \<in> set t
                                 then Some (tl (dropWhile (\<lambda>c. c \<noteq> CHR ''='') t)) else None)
                 in (case (if explicit = None then None else map_of option_strings name) of
                       Some a \<Rightarrow> Option a explicit
                     | None \<Rightarrow>
                         (if t ! 1 = CHR ''-'' then
                            (case filter (\<lambda>sa. prefix name (fst sa)) option_strings of
                               [] \<Rightarrow> Unrecognized
                             | [sa] \<Rightarrow> Option (snd sa) explicit
                             | sa # sb # sc \<Rightarrow> Ambiguous)
                          else if negative_number t then Positional
                          else Unrecognized))))))"

fun digits_to_nat :: "string \<Rightarrow> nat \<Rightarrow> nat option" where
  "digits_to_nat [] acc = Some acc"
| "digits_to_nat (c # cs) acc =
     (case digit_val c of None \<Rightarrow> None | Some d \<Rightarrow> digits_to_nat cs (10 * acc + d))"

text \<open>\<^verbatim>\<open>type=int\<close>: an optional sign and at least one digit.\<close>

definition py_int :: "string \<Rightarrow> int option" where
  "py_int s =
     (case s of
        [] \<Rightarrow> None
      | c # r \<Rightarrow>
          if c = CHR ''-'' then (if r = [] then None else map_option (\<lambda>n. - int n) (digits_to_nat r 0))
          else if c = CHR ''+'' then (if r = [] then None else map_option int (digits_to_nat r 0))
          else map_option int (digits_to_nat s 0))"

text \<open>The one argument of a storing option: the text after \<^verbatim>\<open>=\<close>, or else the next
  token if it reads as a value.\<close>

definition take_value :: "string option \<Rightarrow> string list \<Rightarrow> (string \<times> string list) option" where
  "take_value explicit ts =
     (case explicit of
        Some v \<Rightarrow> Some (v, ts)
      | None \<Rightarrow>
          (case ts of
             [] \<Rightarrow> None
           | v # rest \<Rightarrow> if parse_optional v = Positional then Some (v, rest) else None))"

text \<open>The tokens from left to right. A token that no action takes makes the parse
  fail at the end (\<^verbatim>\<open>unrecognized arguments\<close>); the parser has no positional
  argument.\<close>

function consume_args :: "string list \<Rightarrow> namespace \<Rightarrow> bool \<Rightarrow> error + namespace" where
  "consume_args [] ns extras = (if extras then Inl SystemExit else Inr ns)"
| "consume_args (t # ts) ns extras =
     (case parse_optional t of
        Positional \<Rightarrow> consume_args ts ns True
      | Unrecognized \<Rightarrow> consume_args ts ns True
      | Ambiguous \<Rightarrow> Inl SystemExit
      | Option act explicit \<Rightarrow>
          (case act of
             Help \<Rightarrow> Inl SystemExit
           | Store_true_log \<Rightarrow>
               (case explicit of
                  None \<Rightarrow> consume_args ts (ns\<lparr>log := True\<rparr>) extras
                | Some _ \<Rightarrow> Inl SystemExit)
           | Store_config_path \<Rightarrow>
               (case take_value explicit ts of
                  None \<Rightarrow> Inl SystemExit
                | Some (v, rest) \<Rightarrow> consume_args rest (ns\<lparr>config_path := Some v\<rparr>) extras)
           | Store_num_gpus \<Rightarrow>
               (case take_value explicit ts of
                  None \<Rightarrow> Inl SystemExit
                | Some (v, rest) \<Rightarrow>
                    (case py_int v of
                       None \<Rightarrow> Inl SystemExit
                     | Some n \<Rightarrow> consume_args rest (ns\<lparr>num_gpus := n\<rparr>) extras))))"
  by pat_completeness auto
termination
  by (relation "measure (\<lambda>(ts, ns, extras). length ts)")
     (auto simp: take_value_def split: option.splits list.splits if_splits)

text \<open>Lines 107 to 110: no default for \<^verbatim>\<open>--config_path\<close> (so \<open>None\<close>),
  \<^verbatim>\<open>store_true\<close> for \<^verbatim>\<open>--log\<close> (so \<open>False\<close>), \<open>1\<close> for \<^verbatim>\<open>--num_gpus\<close>.\<close>

definition parse_args :: "string list \<Rightarrow> error + namespace" where
  "parse_args argv = consume_args argv \<lparr>config_path = None, log = False, num_gpus = 1\<rparr> False"

subsection \<open>Launching the workers\<close>

text \<open>
  What the program starts. \<^verbatim>\<open>mp.spawn(fn, args=(args,), nprocs=n)\<close> starts \<open>n\<close>
  processes, process \<open>i\<close> running \<^verbatim>\<open>fn(i, args)\<close> in its own memory; the model lists
  the runs by rank and says nothing about how they interleave. The assignment to
  \<^verbatim>\<open>torch.backends.cudnn.benchmark\<close> on line 105 has no effect on what follows.
\<close>

datatype outcome =
    Exited error
  | Direct "(error + unit) \<times> world"
  | Spawned "((error + unit) \<times> world) list"

text \<open>Line 111: \<^verbatim>\<open>args.distributed = args.num_gpus > 1\<close>.\<close>

definition with_distributed :: "namespace \<Rightarrow> args" where
  "with_distributed ns =
     \<lparr>config_path = config_path ns, log = log ns, num_gpus = num_gpus ns,
      distributed = (num_gpus ns > 1)\<rparr>"

definition main :: "env \<Rightarrow> string list \<Rightarrow> outcome" where
  "main E argv =
     (case parse_args argv of
        Inl e \<Rightarrow> Exited e
      | Inr ns \<Rightarrow>
          if distributed (with_distributed ns)
          then Spawned (map (\<lambda>rank. subprocess_fn E rank (with_distributed ns) world0)
                          [0..<nat (num_gpus (with_distributed ns))])
          else Direct (subprocess_fn E 0 (with_distributed ns) world0))"

section \<open>Assertions about runs\<close>

text \<open>
  The position of a call in the text of \<^verbatim>\<open>subprocess_fn\<close>, in the order of execution:
  0 \<^verbatim>\<open>setup\<close>; 1 the first \<^verbatim>\<open>print\<close>; 2 \<^verbatim>\<open>open\<close>; 3 \<^verbatim>\<open>yaml.load\<close>;
  4 \<^verbatim>\<open>NSLoader\<close>; 5 \<^verbatim>\<open>make_dataset\<close>; 6 \<^verbatim>\<open>data_sampler\<close>; 7 \<^verbatim>\<open>DataLoader\<close>;
  8 \<^verbatim>\<open>FNN3d\<close>; 9 \<^verbatim>\<open>to\<close>; 10 \<^verbatim>\<open>torch.load\<close>; 11 \<^verbatim>\<open>load_state_dict\<close>;
  12 the \<^verbatim>\<open>print\<close> after loading; 13 \<^verbatim>\<open>DistributedDataParallel\<close>;
  14 \<^verbatim>\<open>requires_grad\<close>; 15 \<^verbatim>\<open>Adam\<close>; 16 \<^verbatim>\<open>MultiStepLR\<close>; 17 \<^verbatim>\<open>get_forcing\<close>;
  18 \<^verbatim>\<open>train\<close>; 19 \<^verbatim>\<open>cleanup\<close>; 20 the last \<^verbatim>\<open>print\<close>.
\<close>

fun stage :: "event \<Rightarrow> nat" where
  "stage (Call_setup _ _) = 0"
| "stage (Print_running _) = 1"
| "stage (Call_open _) = 2"
| "stage (Call_yaml_load _) = 3"
| "stage (New (NSLoader _ _ _ _ _ _ _ _)) = 4"
| "stage (New (Dataset _ _ _ _)) = 5"
| "stage (New (Sampler _ _ _)) = 6"
| "stage (New (DataLoader _ _ _ _)) = 7"
| "stage (Call_FNN3d _ _ _ _ _) = 8"
| "stage (Call_to _ _) = 9"
| "stage (Call_torch_load _) = 10"
| "stage (Call_load_state_dict _ _) = 11"
| "stage (Print_weights_loaded _) = 12"
| "stage (Call_DDP _ _ _) = 13"
| "stage (Call_requires_grad _ _) = 14"
| "stage (New (Adam _ _ _)) = 15"
| "stage (New (MultiStepLR _ _ _)) = 16"
| "stage (New (Forcing _ _)) = 17"
| "stage (Call_train _ _ _ _ _ _ _ _ _ _ _ _) = 18"
| "stage Call_cleanup = 19"
| "stage (Print_done _) = 20"

text \<open>The exceptions that Python raises while it evaluates a subscript, a membership
  test or an attribute of the script itself.\<close>

definition lookup_error :: "error \<Rightarrow> bool" where
  "lookup_error e = (case e of KeyError k \<Rightarrow> True | TypeError \<Rightarrow> True | IndexError \<Rightarrow> True
      | AttributeError c n \<Rightarrow> True | SystemExit \<Rightarrow> False | Raised l \<Rightarrow> False)"

text \<open>The network that line 54 builds from the \<^verbatim>\<open>model\<close> section of the
  configuration file named on the command line.\<close>

definition fresh_net :: "env \<Rightarrow> args \<Rightarrow> module \<Rightarrow> bool" where
  "fresh_net E a net = (\<exists>path modes1 modes2 modes3 fc_dim layers.
      config_path a = Some path \<and>
      getitem2 (yaml_load E path) ''model'' ''modes1'' = Inr modes1 \<and>
      getitem2 (yaml_load E path) ''model'' ''modes2'' = Inr modes2 \<and>
      getitem2 (yaml_load E path) ''model'' ''modes3'' = Inr modes3 \<and>
      getitem2 (yaml_load E path) ''model'' ''fc_dim'' = Inr fc_dim \<and>
      getitem2 (yaml_load E path) ''model'' ''layers'' = Inr layers \<and>
      net = FNN3d E modes1 modes2 modes3 fc_dim layers)"

text \<open>The value under \<^verbatim>\<open>ckpt\<close> in the \<^verbatim>\<open>train\<close> section.\<close>

definition ckpt_path_of :: "env \<Rightarrow> args \<Rightarrow> pyval \<Rightarrow> bool" where
  "ckpt_path_of E a p = (\<exists>path kvs. config_path a = Some path \<and>
      getitem (yaml_load E path) ''train'' = Inr (PDict kvs) \<and> map_of kvs ''ckpt'' = Some p)"

text \<open>What the four expressions of lines 74 to 77 denote on a given receiver.\<close>

definition unfrozen_of :: "module \<Rightarrow> module \<Rightarrow> bool" where
  "unfrozen_of model m =
     ((\<exists>c. getattr model ''sp_convs'' = Inr c \<and> getitem_last c = Inr m) \<or>
      (\<exists>c. getattr model ''ws'' = Inr c \<and> getitem_last c = Inr m) \<or>
      getattr model ''fc1'' = Inr m \<or> getattr model ''fc2'' = Inr m)"

text \<open>Where the arguments of a recorded call come from.\<close>

fun provenance :: "env \<Rightarrow> args \<Rightarrow> event \<Rightarrow> bool" where
  "provenance E a (New (NSLoader d1 d2 nx nt sub sub_t N ti)) =
     (\<exists>path kvs. config_path a = Some path \<and>
        getitem (yaml_load E path) ''data'' = Inr (PDict kvs) \<and>
        d2 = map_of kvs ''datapath2'' \<and>
        map_of kvs ''datapath'' = Some d1 \<and> map_of kvs ''nx'' = Some nx \<and>
        map_of kvs ''nt'' = Some nt \<and> map_of kvs ''sub'' = Some sub \<and>
        map_of kvs ''sub_t'' = Some sub_t \<and> map_of kvs ''total_num'' = Some N \<and>
        map_of kvs ''time_interval'' = Some ti)"
| "provenance E a (Call_torch_load p) = ckpt_path_of E a p"
| "provenance E a (Call_load_state_dict net sd) =
     (fresh_net E a net \<and> (\<exists>p. ckpt_path_of E a p \<and> getitem (torch_load E p) ''model'' = Inr sd))"
| "provenance E a (Call_DDP net ranks bb) = fresh_net E a net"
| "provenance E a (Call_requires_grad m flag) =
     (\<exists>net. fresh_net E a net \<and>
        (if flag then \<not> distributed a \<and> unfrozen_of net m
         else m = (if distributed a then DDP net else net)))"
| "provenance E a ev = True"

text \<open>A run that is not distributed makes no call of \<^verbatim>\<open>setup\<close>,
  \<^verbatim>\<open>DistributedDataParallel\<close> or \<^verbatim>\<open>cleanup\<close>.\<close>

definition ev_ok :: "env \<Rightarrow> args \<Rightarrow> event \<Rightarrow> bool" where
  "ev_ok E a ev =
     ((\<not> distributed a \<longrightarrow> stage ev \<noteq> 0 \<and> stage ev \<noteq> 13 \<and> stage ev \<noteq> 19) \<and> provenance E a ev)"

text \<open>What holds of the calls \<open>evs\<close> that a part of the function adds and of its
  result \<open>r\<close>: the calls are in the order of the text, between positions \<open>lo\<close> and
  \<open>hi\<close>; a call that raises gives the result; an exception either comes from the last
  call or is a lookup error.\<close>

definition post :: "env \<Rightarrow> args \<Rightarrow> nat \<Rightarrow> nat \<Rightarrow> error + 'a \<Rightarrow> event list \<Rightarrow> bool" where
  "post E a lo hi r evs =
     (sorted (map stage evs) \<and>
      (\<forall>ev\<in>set evs. lo \<le> stage ev \<and> stage ev \<le> hi \<and> ev_ok E a ev \<and>
         (\<forall>e. raises E ev = Some e \<longrightarrow> r = Inl e)) \<and>
      (\<forall>e. r = Inl e \<longrightarrow> (evs \<noteq> [] \<and> raises E (last evs) = Some e) \<or> lookup_error e))"

text \<open>A part of the function only adds calls, these satisfy \<open>post\<close>, and a value
  it returns satisfies \<open>R\<close>.\<close>

definition hoare :: "env \<Rightarrow> args \<Rightarrow> nat \<Rightarrow> nat \<Rightarrow> 'a prog \<Rightarrow> ('a \<Rightarrow> bool) \<Rightarrow> bool" where
  "hoare E a lo hi m R =
     (\<forall>w r w'. m w = (r, w') \<longrightarrow>
        (\<exists>evs. trace w' = trace w @ evs \<and> post E a lo hi r evs) \<and> (\<forall>x. r = Inr x \<longrightarrow> R x))"

text \<open>The value of \<^verbatim>\<open>model\<close> after line 67.\<close>

definition model_ok :: "env \<Rightarrow> args \<Rightarrow> module \<Rightarrow> bool" where
  "model_ok E a model = (\<exists>net. fresh_net E a net \<and> model = (if distributed a then DDP net else net))"

text \<open>The events of lines 60 to 64 when they return: none without the key, three with it.\<close>

definition ckpt_events :: "env \<Rightarrow> pyval \<Rightarrow> module \<Rightarrow> event list" where
  "ckpt_events E config net =
     (case getitem2 config ''train'' ''ckpt'' of
        Inl e \<Rightarrow> []
      | Inr p \<Rightarrow>
          (case getitem (torch_load E p) ''model'' of
             Inl e \<Rightarrow> []
           | Inr sd \<Rightarrow> [Call_torch_load p, Call_load_state_dict net sd, Print_weights_loaded p]))"

section \<open>A sample configuration\<close>

text \<open>A configuration with both optional keys, a small network with the four
  submodules that the script names, and an environment in which no call raises.\<close>

definition example_data :: pyval where
  "example_data = PDict
     [(''datapath'', PStr ''data/NS_Re500_part0.npy''),
      (''datapath2'', PStr ''data/NS_Re500_part1.npy''),
      (''nx'', PInt 64), (''nt'', PInt 64), (''sub'', PInt 1), (''sub_t'', PInt 1),
      (''total_num'', PInt 200), (''time_interval'', PFloat (1 / 2)),
      (''n_sample'', PInt 100), (''offset'', PInt 0), (''shuffle'', PBool True)]"

definition example_model :: pyval where
  "example_model = PDict
     [(''modes1'', PList [PInt 8, PInt 8]), (''modes2'', PList [PInt 8, PInt 8]),
      (''modes3'', PList [PInt 8, PInt 8]), (''fc_dim'', PInt 128),
      (''layers'', PList [PInt 64, PInt 64, PInt 64])]"

definition example_train :: pyval where
  "example_train = PDict
     [(''batchsize'', PInt 1), (''base_lr'', PFloat (1 / 1000)),
      (''milestones'', PList [PInt 100, PInt 200]), (''scheduler_gamma'', PFloat (1 / 2)),
      (''ckpt'', PStr ''checkpoints/pretrain.pt'')]"

definition example_others :: pyval where
  "example_others = PDict [(''project'', PStr ''PINO''), (''group'', PStr ''finetune'')]"

definition example_config :: pyval where
  "example_config = PDict
     [(''data'', example_data), (''model'', example_model),
      (''train'', example_train), (''others'', example_others)]"

definition example_net :: module where
  "example_net = Module ''FNN3d'' []
     [(''fc0'', Module ''Linear'' [0, 1] []),
      (''sp_convs'', Module ''ModuleList'' []
         [(''0'', Module ''SpectralConv3d'' [2] []), (''1'', Module ''SpectralConv3d'' [3] [])]),
      (''ws'', Module ''ModuleList'' []
         [(''0'', Module ''Conv1d'' [4, 5] []), (''1'', Module ''Conv1d'' [6, 7] [])]),
      (''fc1'', Module ''Linear'' [8, 9] []),
      (''fc2'', Module ''Linear'' [10, 11] [])]"

definition example_env :: env where
  "example_env = \<lparr>raises = (\<lambda>ev. None), yaml_load = (\<lambda>path. example_config),
     FNN3d = (\<lambda>modes1 modes2 modes3 fc_dim layers. example_net),
     torch_load = (\<lambda>path. PDict [(''model'', PDict [])])\<rparr>"

definition example_args :: "int \<Rightarrow> args" where
  "example_args n = \<lparr>config_path = Some ''finetune.yaml'', log = False, num_gpus = n,
     distributed = (n > 1)\<rparr>"

definition example_loader :: obj where
  "example_loader = NSLoader (PStr ''data/NS_Re500_part0.npy'') (Some (PStr ''data/NS_Re500_part1.npy''))
     (PInt 64) (PInt 64) (PInt 1) (PInt 1) (PInt 200) (PFloat (1 / 2))"

definition example_trainset :: obj where
  "example_trainset = Dataset example_loader (PInt 100) (PInt 0) (PBool True)"

definition example_train_loader :: "bool \<Rightarrow> obj" where
  "example_train_loader d =
     DataLoader example_trainset (PInt 1) (Sampler example_trainset (PBool True) d) True"



section \<open>Properties\<close>

subsection \<open>Sequencing\<close>

lemma ret_iff: "(ret x w = (r, w')) = (r = Inr x \<and> w' = w)"
  by (auto simp: ret_def)

lemma lift_iff: "(lift v w = (r, w')) = (v = r \<and> w' = w)"
  by (auto simp: lift_def)

lemma bnd_Inr_iff:
  "(bnd m f w = (Inr y, w')) = (\<exists>x w1. m w = (Inr x, w1) \<and> f x w1 = (Inr y, w'))"
  by (auto simp: bnd_def split: prod.splits sum.splits)

lemma bnd_cases:
  "bnd m f w = (r, w') \<Longrightarrow>
     (\<exists>e. m w = (Inl e, w') \<and> r = Inl e) \<or> (\<exists>x w1. m w = (Inr x, w1) \<and> f x w1 = (r, w'))"
  by (auto simp: bnd_def split: prod.splits sum.splits)

lemma call_Inr_iff:
  "(call E ev w = (Inr u, w')) = (raises E ev = None \<and> w' = w\<lparr>trace := trace w @ [ev]\<rparr>)"
  by (auto simp: call_def Let_def split: option.splits)

lemma call_Inl_iff:
  "(call E ev w = (Inl e, w')) = (raises E ev = Some e \<and> w' = w\<lparr>trace := trace w @ [ev]\<rparr>)"
  by (auto simp: call_def Let_def split: option.splits)

lemma new_Inr_iff:
  "(new E ob w = (Inr x, w')) = (raises E (New ob) = None \<and> x = ob \<and> w' = w\<lparr>trace := trace w @ [New ob]\<rparr>)"
  by (auto simp: new_def bnd_Inr_iff call_Inr_iff ret_iff)

lemma requires_grad_Inr_iff:
  "(requires_grad E m flag w = (Inr u, w')) =
     (raises E (Call_requires_grad m flag) = None \<and>
      w' = w\<lparr>trace := trace w @ [Call_requires_grad m flag],
                grad := (\<lambda>p. if p \<in> set (parameters m) then flag else grad w p)\<rparr>)"
  by (auto simp: requires_grad_def modify_def bnd_Inr_iff call_Inr_iff)

lemma gets_iff: "(gets f w = (r, w')) = (r = Inr (f w) \<and> w' = w)"
  by (auto simp: gets_def)

lemmas run_simps = ret_iff lift_iff gets_iff bnd_Inr_iff call_Inr_iff new_Inr_iff requires_grad_Inr_iff

lemma load_config_Inr:
  "load_config E a w = (Inr config, w') \<Longrightarrow>
     \<exists>path. config_path a = Some path \<and> config = yaml_load E path \<and>
       raises E (Call_open path) = None \<and> raises E (Call_yaml_load path) = None \<and>
       w' = w\<lparr>trace := trace w @ [Call_open path, Call_yaml_load path]\<rparr>"
  by (auto simp: load_config_def run_simps split: option.splits)

lemma getitem_Inr: "getitem v k = Inr x \<Longrightarrow> \<exists>kvs. v = PDict kvs \<and> map_of kvs k = Some x"
  by (cases v) (auto split: option.splits)

lemma construct_loader_Inr:
  "construct_loader E dc w = (Inr loader, w') \<Longrightarrow>
     \<exists>kvs d1 nx nt sub sub_t N ti. dc = PDict kvs \<and>
       map_of kvs ''datapath'' = Some d1 \<and> map_of kvs ''nx'' = Some nx \<and>
       map_of kvs ''nt'' = Some nt \<and> map_of kvs ''sub'' = Some sub \<and>
       map_of kvs ''sub_t'' = Some sub_t \<and> map_of kvs ''total_num'' = Some N \<and>
       map_of kvs ''time_interval'' = Some ti \<and>
       loader = NSLoader d1 (map_of kvs ''datapath2'') nx nt sub sub_t N ti \<and>
       raises E (New loader) = None \<and>
       w' = w\<lparr>trace := trace w @ [New loader]\<rparr>"
  apply (cases dc)
  apply (auto simp: construct_loader_def run_simps split: if_splits option.splits)
  done

subsection \<open>Rules for parts of the function\<close>

lemma post_Inl_mono:
  assumes "post E a lo mid (Inl e :: error + 'a) evs" and "mid \<le> hi"
  shows "post E a lo hi (Inl e :: error + 'b) evs"
proof -
  have "\<forall>ev\<in>set evs. lo \<le> stage ev \<and> stage ev \<le> hi \<and> ev_ok E a ev \<and>
          (\<forall>e'. raises E ev = Some e' \<longrightarrow> (Inl e :: error + 'b) = Inl e')"
  proof
    fix ev assume "ev \<in> set evs"
    with assms(1) have "lo \<le> stage ev \<and> stage ev \<le> mid \<and> ev_ok E a ev \<and>
          (\<forall>e'. raises E ev = Some e' \<longrightarrow> (Inl e :: error + 'a) = Inl e')"
      unfolding post_def by blast
    with assms(2) show "lo \<le> stage ev \<and> stage ev \<le> hi \<and> ev_ok E a ev \<and>
          (\<forall>e'. raises E ev = Some e' \<longrightarrow> (Inl e :: error + 'b) = Inl e')"
      by simp
  qed
  moreover have "sorted (map stage evs)" using assms(1) unfolding post_def by blast
  moreover have "\<forall>e'. (Inl e :: error + 'b) = Inl e' \<longrightarrow> (evs \<noteq> [] \<and> raises E (last evs) = Some e') \<or> lookup_error e'"
    using assms(1) unfolding post_def by simp
  ultimately show ?thesis unfolding post_def by blast
qed

lemma post_append:
  assumes p1: "post E a lo mid (Inr x :: error + 'a) evs1" and p2: "post E a mid hi (r :: error + 'b) evs2"
    and le: "lo \<le> mid" "mid \<le> hi"
  shows "post E a lo hi r (evs1 @ evs2)"
proof -
  have b1: "\<And>ev. ev \<in> set evs1 \<Longrightarrow> lo \<le> stage ev \<and> stage ev \<le> mid \<and> ev_ok E a ev \<and> raises E ev = None"
    using p1 unfolding post_def by (cases "raises E ev") auto
  have b2: "\<And>ev. ev \<in> set evs2 \<Longrightarrow> mid \<le> stage ev \<and> stage ev \<le> hi \<and> ev_ok E a ev \<and>
          (\<forall>e. raises E ev = Some e \<longrightarrow> r = Inl e)"
    using p2 unfolding post_def by blast
  have s1: "sorted (map stage evs1)" using p1 unfolding post_def by blast
  have s2: "sorted (map stage evs2)" using p2 unfolding post_def by blast
  have "\<And>x y. x \<in> set evs1 \<Longrightarrow> y \<in> set evs2 \<Longrightarrow> stage x \<le> stage y"
    using b1 b2 by (meson order_trans)
  with s1 s2 have s: "sorted (map stage (evs1 @ evs2))"
    by (simp add: sorted_append)
  have b: "\<forall>ev\<in>set (evs1 @ evs2). lo \<le> stage ev \<and> stage ev \<le> hi \<and> ev_ok E a ev \<and>
          (\<forall>e. raises E ev = Some e \<longrightarrow> r = Inl e)"
  proof
    fix ev assume "ev \<in> set (evs1 @ evs2)"
    then consider "ev \<in> set evs1" | "ev \<in> set evs2" by auto
    then show "lo \<le> stage ev \<and> stage ev \<le> hi \<and> ev_ok E a ev \<and>
          (\<forall>e. raises E ev = Some e \<longrightarrow> r = Inl e)"
    proof cases
      case 1 from b1[OF 1] le show ?thesis by simp
    next
      case 2 from b2[OF 2] le show ?thesis by simp
    qed
  qed
  have l: "\<forall>e. r = Inl e \<longrightarrow> (evs1 @ evs2 \<noteq> [] \<and> raises E (last (evs1 @ evs2)) = Some e) \<or> lookup_error e"
    using p2 unfolding post_def by auto
  from s b l show ?thesis unfolding post_def by blast
qed

lemma hoareD:
  "hoare E a lo hi m R \<Longrightarrow> m w = (r, w') \<Longrightarrow>
     (\<exists>evs. trace w' = trace w @ evs \<and> post E a lo hi r evs) \<and> (\<forall>x. r = Inr x \<longrightarrow> R x)"
  unfolding hoare_def by blast

lemma hoare_bnd:
  assumes m: "hoare E a lo mid m R1"
    and f: "\<And>x. R1 x \<Longrightarrow> hoare E a mid hi (f x) R"
    and le: "lo \<le> mid" "mid \<le> hi"
  shows "hoare E a lo hi (bnd m f) R"
  unfolding hoare_def
proof (intro allI impI)
  fix w r w'
  assume run: "bnd m f w = (r, w')"
  from bnd_cases[OF run]
  show "(\<exists>evs. trace w' = trace w @ evs \<and> post E a lo hi r evs) \<and> (\<forall>x. r = Inr x \<longrightarrow> R x)"
  proof (elim disjE exE conjE)
    fix e assume me: "m w = (Inl e, w')" and r: "r = Inl e"
    from hoareD[OF m me] obtain evs where ev: "trace w' = trace w @ evs" "post E a lo mid (Inl e :: error + 'a) evs"
      by (elim conjE exE)
    have "post E a lo hi r evs" unfolding r using post_Inl_mono[OF ev(2) le(2)] .
    with ev(1) have "\<exists>evs. trace w' = trace w @ evs \<and> post E a lo hi r evs" by (intro exI conjI)
    then show ?thesis using r by simp
  next
    fix x w1 assume mx: "m w = (Inr x, w1)" and fx: "f x w1 = (r, w')"
    from hoareD[OF m mx] obtain evs1 where e1: "trace w1 = trace w @ evs1" "post E a lo mid (Inr x :: error + 'a) evs1" and "R1 x"
      by (elim conjE exE) simp
    from hoareD[OF f[OF \<open>R1 x\<close>] fx] obtain evs2 where e2: "trace w' = trace w1 @ evs2" "post E a mid hi r evs2"
       and R: "\<forall>y. r = Inr y \<longrightarrow> R y"
      by (elim conjE exE)
    have "post E a lo hi r (evs1 @ evs2)"
      using post_append[OF e1(2) e2(2) le] .
    moreover have "trace w' = trace w @ (evs1 @ evs2)" using e1(1) e2(1) by simp
    ultimately have "\<exists>evs. trace w' = trace w @ evs \<and> post E a lo hi r evs" by (intro exI conjI)
    with R show ?thesis by (intro conjI)
  qed
qed

lemma hoare_ret: "lo \<le> hi \<Longrightarrow> R x \<Longrightarrow> hoare E a lo hi (ret x) R"
  by (simp add: hoare_def ret_iff post_def)

lemma hoare_lift:
  "(\<And>e. v = Inl e \<Longrightarrow> lookup_error e) \<Longrightarrow> hoare E a lo hi (lift v) (\<lambda>x. v = Inr x)"
  by (simp add: hoare_def lift_iff post_def)

lemma hoare_call:
  assumes "lo \<le> stage ev" "stage ev \<le> hi" "ev_ok E a ev" "R ()"
  shows "hoare E a lo hi (call E ev) R"
  unfolding hoare_def
proof (intro allI impI)
  fix w r w' assume "call E ev w = (r, w')"
  then have t: "trace w' = trace w @ [ev]" and r: "r = (case raises E ev of None \<Rightarrow> Inr () | Some e \<Rightarrow> Inl e)"
    by (auto simp: call_def Let_def split: option.splits)
  have "post E a lo hi r [ev]"
    using assms r by (auto simp: post_def split: option.splits)
  with t have "\<exists>evs. trace w' = trace w @ evs \<and> post E a lo hi r evs" by blast
  moreover have "\<forall>x. r = Inr x \<longrightarrow> R x" using assms(4) by simp
  ultimately show "(\<exists>evs. trace w' = trace w @ evs \<and> post E a lo hi r evs) \<and> (\<forall>x. r = Inr x \<longrightarrow> R x)"
    by blast
qed

lemma hoare_weaken: "hoare E a lo hi m R \<Longrightarrow> (\<And>x. R x \<Longrightarrow> R' x) \<Longrightarrow> hoare E a lo hi m R'"
  unfolding hoare_def by blast

lemma hoare_new:
  assumes "lo \<le> stage (New ob)" "stage (New ob) \<le> hi" "ev_ok E a (New ob)" "R ob"
  shows "hoare E a lo hi (new E ob) R"
  unfolding new_def
  by (rule hoare_bnd[where mid="stage (New ob)" and ?R1.0="\<lambda>_. True"])
     (auto intro!: hoare_call hoare_ret assms)

lemma hoare_requires_grad:
  assumes "lo \<le> 14" "14 \<le> hi" "ev_ok E a (Call_requires_grad m flag)" "R ()"
  shows "hoare E a lo hi (requires_grad E m flag) R"
  unfolding requires_grad_def
  apply (rule hoare_bnd[where mid=14 and ?R1.0="\<lambda>_. True"])
     apply (rule hoare_call)
  using assms apply simp_all
  apply (simp add: hoare_def post_def modify_def)
  done

lemma hoare_bnd_lift:
  assumes "\<And>e. v = Inl e \<Longrightarrow> lookup_error e"
    and "\<And>x. v = Inr x \<Longrightarrow> hoare E a lo hi (f x) R" and "lo \<le> hi"
  shows "hoare E a lo hi (bnd (lift v) f) R"
  by (rule hoare_bnd[where mid=lo, OF hoare_lift]) (use assms in auto)

lemma hoare_bnd_call:
  assumes "lo \<le> stage ev" "stage ev \<le> hi" "ev_ok E a ev"
    and "hoare E a (stage ev) hi (f ()) R"
  shows "hoare E a lo hi (bnd (call E ev) f) R"
  by (rule hoare_bnd[where mid="stage ev" and ?R1.0="\<lambda>_. True"])
     (auto intro!: hoare_call assms)

lemma hoare_bnd_new:
  assumes "lo \<le> stage (New ob)" "stage (New ob) \<le> hi" "ev_ok E a (New ob)"
    and "hoare E a (stage (New ob)) hi (f ob) R"
  shows "hoare E a lo hi (bnd (new E ob) f) R"
  by (rule hoare_bnd[where mid="stage (New ob)" and ?R1.0="\<lambda>x. x = ob"])
     (auto intro!: hoare_new assms)

lemma hoare_bnd_requires_grad:
  assumes "lo \<le> 14" "14 \<le> hi" "ev_ok E a (Call_requires_grad m flag)"
    and "hoare E a 14 hi (f ()) R"
  shows "hoare E a lo hi (bnd (requires_grad E m flag) f) R"
  by (rule hoare_bnd[where mid=14 and ?R1.0="\<lambda>_. True"])
     (auto intro!: hoare_requires_grad assms)

lemma hoare_if:
  "(c \<Longrightarrow> hoare E a lo hi m1 R) \<Longrightarrow> (\<not> c \<Longrightarrow> hoare E a lo hi m2 R) \<Longrightarrow>
   hoare E a lo hi (if c then m1 else m2) R"
  by simp

lemma getitem_error: "getitem v k = Inl e \<Longrightarrow> lookup_error e"
  by (cases v) (auto simp: lookup_error_def split: option.splits)

lemma getitem2_error: "getitem2 v s k = Inl e \<Longrightarrow> lookup_error e"
  by (auto simp: getitem2_def split: sum.splits dest: getitem_error)

lemma contains_error: "contains k v = Inl e \<Longrightarrow> lookup_error e"
  by (cases v) (auto simp: lookup_error_def)

lemma getattr_error: "getattr m n = Inl e \<Longrightarrow> lookup_error e"
  by (auto simp: getattr_def lookup_error_def split: option.splits)

lemma getitem_last_error: "getitem_last m = Inl e \<Longrightarrow> lookup_error e"
  by (auto simp: getitem_last_def lookup_error_def split: if_splits list.splits)

lemmas lookup_errors = getitem_error getitem2_error contains_error getattr_error getitem_last_error

lemmas hoare_steps = hoare_bnd_lift hoare_bnd_call hoare_bnd_new hoare_bnd_requires_grad hoare_if
  hoare_call hoare_new hoare_ret

subsection \<open>The parts of the function, one by one\<close>

lemma load_config_hoare:
  "hoare E a 2 3 (load_config E a) (\<lambda>config. \<exists>path. config_path a = Some path \<and> config = yaml_load E path)"
proof (cases "config_path a")
  case None
  then show ?thesis
    by (simp add: load_config_def hoare_def lift_iff post_def lookup_error_def)
next
  case (Some path)
  show ?thesis
    unfolding load_config_def Some option.case
    by (intro hoare_steps) (simp_all add: ev_ok_def Some)
qed

lemma construct_loader_hoare:
  assumes "config_path a = Some path" "getitem (yaml_load E path) ''data'' = Inr dc"
  shows "hoare E a 4 4 (construct_loader E dc) (\<lambda>_. True)"
  unfolding construct_loader_def
  apply (intro hoare_steps)
  using assms
                      apply (auto simp: ev_ok_def dest: lookup_errors dest!: getitem_Inr)
  done

lemma construct_train_loader_hoare:
  "hoare E a 5 7 (construct_train_loader E a config dc loader) (\<lambda>_. True)"
  unfolding construct_train_loader_def
  apply (intro hoare_steps)
                      apply (auto simp: ev_ok_def dest: lookup_errors)
  done

lemma construct_model_hoare:
  assumes "config_path a = Some path" "config = yaml_load E path"
  shows "hoare E a 8 9 (construct_model E rank config) (fresh_net E a)"
  unfolding construct_model_def
  apply (intro hoare_steps)
  using assms
                      apply (auto simp: ev_ok_def fresh_net_def dest: lookup_errors)
  done

lemma getitem2_Inr:
  "getitem2 config s k = Inr x \<Longrightarrow> \<exists>sec. getitem config s = Inr sec \<and> getitem sec k = Inr x"
  by (auto simp: getitem2_def split: sum.splits)

lemma load_ckpt_hoare:
  assumes "config_path a = Some path" "config = yaml_load E path" "fresh_net E a net"
  shows "hoare E a 10 12 (load_ckpt E config net) (\<lambda>_. True)"
  unfolding load_ckpt_def
  apply (intro hoare_steps)
  using assms
                      apply (auto simp: ev_ok_def ckpt_path_of_def dest: lookup_errors dest!: getitem2_Inr getitem_Inr)
  done

lemma wrap_model_hoare:
  assumes "fresh_net E a net"
  shows "hoare E a 13 13 (wrap_model E rank a net) (\<lambda>model. model = (if distributed a then DDP net else net))"
  unfolding wrap_model_def
  apply (intro hoare_steps)
  using assms
                      apply (auto simp: ev_ok_def)
  done

lemma getattr_DDP: "getattr (DDP net) ''sp_convs'' = Inl (AttributeError ''DistributedDataParallel'' ''sp_convs'')"
  by (simp add: getattr_def DDP_def)

lemma hoare_final:
  "lo \<le> hi \<Longrightarrow> (\<And>w. R (f w)) \<Longrightarrow> hoare E a lo hi (gets f) R"
  by (simp add: hoare_def post_def gets_def)

lemma finetune_params_hoare:
  assumes "fresh_net E a net" "model = (if distributed a then DDP net else net)"
  shows "hoare E a 14 14 (finetune_params E model) (\<lambda>_. True)"
  unfolding finetune_params_def
  apply (intro hoare_steps hoare_final)
  using assms
                      apply (auto simp: ev_ok_def unfrozen_of_def getattr_DDP lookup_error_def dest: lookup_errors split: if_splits)
  done

lemma run_training_hoare:
  "hoare E a 15 18 (run_training E rank a config loader train_loader model ps) (\<lambda>_. True)"
  unfolding run_training_def
  apply (intro hoare_steps)
                      apply (auto simp: ev_ok_def dest: lookup_errors)
  done

lemma post_bounds:
  assumes "post E a lo hi r evs" "lo' \<le> lo" "hi \<le> hi'"
  shows "post E a lo' hi' r evs"
proof -
  have "\<And>ev. ev \<in> set evs \<Longrightarrow> lo \<le> stage ev \<and> stage ev \<le> hi \<and> ev_ok E a ev \<and>
         (\<forall>e. raises E ev = Some e \<longrightarrow> r = Inl e)"
    using assms(1) unfolding post_def by blast
  then have "\<forall>ev\<in>set evs. lo' \<le> stage ev \<and> stage ev \<le> hi' \<and> ev_ok E a ev \<and>
         (\<forall>e. raises E ev = Some e \<longrightarrow> r = Inl e)"
    using assms(2,3) by (meson order_trans)
  moreover have "sorted (map stage evs)" using assms(1) unfolding post_def by blast
  moreover have "\<forall>e. r = Inl e \<longrightarrow> (evs \<noteq> [] \<and> raises E (last evs) = Some e) \<or> lookup_error e"
    using assms(1) unfolding post_def by blast
  ultimately show ?thesis unfolding post_def by blast
qed

lemma hoare_bounds:
  assumes "hoare E a lo hi m R" "lo' \<le> lo" "hi \<le> hi'"
  shows "hoare E a lo' hi' m R"
  unfolding hoare_def
proof (intro allI impI)
  fix w r w' assume run: "m w = (r, w')"
  from hoareD[OF assms(1) run] obtain evs where ev: "trace w' = trace w @ evs" "post E a lo hi r evs"
    and R: "\<forall>x. r = Inr x \<longrightarrow> R x"
    by (elim conjE exE)
  from post_bounds[OF ev(2) assms(2,3)] ev(1)
  have "\<exists>evs. trace w' = trace w @ evs \<and> post E a lo' hi' r evs" by (intro exI conjI)
  with R show "(\<exists>evs. trace w' = trace w @ evs \<and> post E a lo' hi' r evs) \<and> (\<forall>x. r = Inr x \<longrightarrow> R x)"
    by (intro conjI)
qed

lemma hoare_seq:
  assumes "hoare E a lo1 hi1 m R1"
    and "\<And>x. R1 x \<Longrightarrow> hoare E a hi1 hi (f x) R"
    and "lo \<le> lo1" "lo1 \<le> hi1" "hi1 \<le> hi"
  shows "hoare E a lo hi (bnd m f) R"
proof (rule hoare_bnd[where mid=hi1 and ?R1.0=R1])
  show "hoare E a lo hi1 m R1" by (rule hoare_bounds[OF assms(1)]) (use assms in simp_all)
  show "hoare E a hi1 hi (f x) R" if "R1 x" for x
    by (rule assms(2)[OF that])
  show "lo \<le> hi1" using assms by simp
  show "hi1 \<le> hi" using assms by simp
qed

lemma join_group_hoare: "hoare E a 0 0 (join_group E rank a) (\<lambda>_. True)"
  unfolding join_group_def
  by (auto intro!: hoare_call hoare_ret simp: ev_ok_def)

lemma leave_group_hoare: "hoare E a 19 19 (leave_group E a) (\<lambda>_. True)"
  unfolding leave_group_def
  by (auto intro!: hoare_call hoare_ret simp: ev_ok_def)

lemma print_running_hoare: "hoare E a 1 1 (call E (Print_running rank)) (\<lambda>_. True)"
  by (auto intro!: hoare_call simp: ev_ok_def)

lemma print_done_hoare: "hoare E a 20 20 (call E (Print_done rank)) (\<lambda>_. True)"
  by (auto intro!: hoare_call simp: ev_ok_def)

lemma build_hoare:
  "hoare E a 1 13 (build E rank a) (\<lambda>(config, loader, train_loader, model). model_ok E a model)"
  unfolding build_def
proof (rule hoare_seq[OF print_running_hoare], rule hoare_seq[OF load_config_hoare])
  fix config assume "\<exists>path. config_path a = Some path \<and> config = yaml_load E path"
  then obtain path where p: "config_path a = Some path" "config = yaml_load E path" by blast
  show "hoare E a 3 13
     (bnd (lift (getitem config ''data'')) (\<lambda>data_config.
      bnd (construct_loader E data_config) (\<lambda>loader.
      bnd (construct_train_loader E a config data_config loader) (\<lambda>train_loader.
      bnd (construct_model E rank config) (\<lambda>net.
      bnd (load_ckpt E config net) (\<lambda>_.
      bnd (wrap_model E rank a net) (\<lambda>model.
      ret (config, loader, train_loader, model))))))))
     (\<lambda>(config, loader, train_loader, model). model_ok E a model)"
  proof (rule hoare_bnd_lift)
    fix dc assume dc: "getitem config ''data'' = Inr dc"
    show "hoare E a 3 13
      (bnd (construct_loader E dc) (\<lambda>loader.
       bnd (construct_train_loader E a config dc loader) (\<lambda>train_loader.
       bnd (construct_model E rank config) (\<lambda>net.
       bnd (load_ckpt E config net) (\<lambda>_.
       bnd (wrap_model E rank a net) (\<lambda>model.
       ret (config, loader, train_loader, model)))))))
      (\<lambda>(config, loader, train_loader, model). model_ok E a model)"
    proof (rule hoare_seq[OF construct_loader_hoare[OF p(1) dc[unfolded p(2)]]],
           rule hoare_seq[OF construct_train_loader_hoare],
           rule hoare_seq[OF construct_model_hoare[OF p]])
      fix loader :: obj and train_loader :: obj and net
      assume net: "fresh_net E a net"
      show "hoare E a 9 13
        (bnd (load_ckpt E config net) (\<lambda>_.
         bnd (wrap_model E rank a net) (\<lambda>model.
         ret (config, loader, train_loader, model))))
        (\<lambda>(config, loader, train_loader, model). model_ok E a model)"
      proof (rule hoare_seq[OF load_ckpt_hoare[OF p net]], rule hoare_seq[OF wrap_model_hoare[OF net]])
        fix model assume "model = (if distributed a then DDP net else net)"
        with net show "hoare E a 13 13 (ret (config, loader, train_loader, model))
           (\<lambda>(config, loader, train_loader, model). model_ok E a model)"
          by (intro hoare_ret) (auto simp: model_ok_def)
      qed simp_all
    qed simp_all
  qed (auto dest: lookup_errors)
qed simp_all

lemma finetune_hoare:
  assumes "model_ok E a model"
  shows "hoare E a 13 20 (finetune E rank a (config, loader, train_loader, model)) (\<lambda>_. True)"
proof -
  from assms obtain net where net: "fresh_net E a net" "model = (if distributed a then DDP net else net)"
    by (auto simp: model_ok_def)
  show ?thesis
    unfolding finetune_def prod.case
    by (rule hoare_seq[OF finetune_params_hoare[OF net]], rule hoare_seq[OF run_training_hoare],
        rule hoare_seq[OF leave_group_hoare], rule hoare_bounds[OF print_done_hoare]) simp_all
qed

lemma after_join_hoare:
  "hoare E a 1 20 (bnd (build E rank a) (finetune E rank a)) (\<lambda>_. True)"
proof (rule hoare_seq[OF build_hoare])
  fix x :: "pyval \<times> obj \<times> obj \<times> module"
  assume x: "(case x of (config, loader, train_loader, model) \<Rightarrow> model_ok E a model)"
  obtain config loader train_loader model where xe: "x = (config, loader, train_loader, model)"
    by (cases x) auto
  from x xe have "model_ok E a model" by simp
  from finetune_hoare[OF this] show "hoare E a 13 20 (finetune E rank a x) (\<lambda>_. True)"
    unfolding xe .
qed simp_all

lemma subprocess_fn_hoare:
  "hoare E a 0 20 (subprocess_fn E rank a) (\<lambda>_. True)"
  unfolding subprocess_fn_def
  by (rule hoare_bnd[where mid=0, OF join_group_hoare hoare_bounds[OF after_join_hoare]]) simp_all

subsection \<open>Runs that return\<close>

lemma construct_train_loader_Inr:
  "construct_train_loader E a config dc loader w = (Inr train_loader, w') \<Longrightarrow>
     \<exists>n_sample offset shuffle batchsize.
       getitem dc ''n_sample'' = Inr n_sample \<and> getitem dc ''offset'' = Inr offset \<and>
       getitem dc ''shuffle'' = Inr shuffle \<and>
       getitem2 config ''train'' ''batchsize'' = Inr batchsize \<and>
       train_loader = DataLoader (Dataset loader n_sample offset shuffle) batchsize
          (Sampler (Dataset loader n_sample offset shuffle) shuffle (distributed a)) True \<and>
       w' = w\<lparr>trace := trace w @
          [New (Dataset loader n_sample offset shuffle),
           New (Sampler (Dataset loader n_sample offset shuffle) shuffle (distributed a)),
           New train_loader]\<rparr>"
  by (auto simp: construct_train_loader_def run_simps)

lemma construct_model_Inr:
  "construct_model E rank config w = (Inr net, w') \<Longrightarrow>
     \<exists>modes1 modes2 modes3 fc_dim layers.
       getitem2 config ''model'' ''modes1'' = Inr modes1 \<and>
       getitem2 config ''model'' ''modes2'' = Inr modes2 \<and>
       getitem2 config ''model'' ''modes3'' = Inr modes3 \<and>
       getitem2 config ''model'' ''fc_dim'' = Inr fc_dim \<and>
       getitem2 config ''model'' ''layers'' = Inr layers \<and>
       net = FNN3d E modes1 modes2 modes3 fc_dim layers \<and>
       w' = w\<lparr>trace := trace w @ [Call_FNN3d modes1 modes2 modes3 fc_dim layers, Call_to net rank]\<rparr>"
  by (auto simp: construct_model_def run_simps)

lemma load_ckpt_Inr:
  assumes "load_ckpt E config net w = (Inr u, w')" and "getitem config ''train'' = Inr (PDict kvs)"
  shows "w' = w\<lparr>trace := trace w @ ckpt_events E config net\<rparr> \<and>
         (case map_of kvs ''ckpt'' of
            None \<Rightarrow> ckpt_events E config net = []
          | Some p \<Rightarrow> \<exists>sd. getitem (torch_load E p) ''model'' = Inr sd \<and>
              ckpt_events E config net = [Call_torch_load p, Call_load_state_dict net sd, Print_weights_loaded p])"
  using assms
  by (auto simp: load_ckpt_def run_simps ckpt_events_def getitem2_def split: if_splits option.splits)

lemma wrap_model_Inr:
  "wrap_model E rank a net w = (Inr model, w') \<Longrightarrow>
     model = (if distributed a then DDP net else net) \<and>
     w' = w\<lparr>trace := trace w @ (if distributed a then [Call_DDP net [rank] False] else [])\<rparr>"
  by (auto simp: wrap_model_def run_simps split: if_splits)

lemma finetune_params_Inr:
  "finetune_params E model w = (Inr ps, w') \<Longrightarrow>
     \<exists>sp_convs sp_conv ws w_last fc1 fc2.
       getattr model ''sp_convs'' = Inr sp_convs \<and> getitem_last sp_convs = Inr sp_conv \<and>
       getattr model ''ws'' = Inr ws \<and> getitem_last ws = Inr w_last \<and>
       getattr model ''fc1'' = Inr fc1 \<and> getattr model ''fc2'' = Inr fc2 \<and>
       trace w' = trace w @
          [Call_requires_grad model False, Call_requires_grad sp_conv True,
           Call_requires_grad w_last True, Call_requires_grad fc1 True,
           Call_requires_grad fc2 True] \<and>
       (\<forall>p. grad w' p =
          (if p \<in> set (parameters sp_conv) \<union> set (parameters w_last) \<union>
                   set (parameters fc1) \<union> set (parameters fc2) then True
           else if p \<in> set (parameters model) then False else grad w p)) \<and>
       ps = filter (grad w') (parameters model)"
  by (auto simp: finetune_params_def run_simps)

lemma run_training_Inr:
  "run_training E rank a config loader train_loader model ps w = (Inr u, w') \<Longrightarrow>
     \<exists>lr milestones gamma project grp.
       getitem2 config ''train'' ''base_lr'' = Inr lr \<and>
       getitem2 config ''train'' ''milestones'' = Inr milestones \<and>
       getitem2 config ''train'' ''scheduler_gamma'' = Inr gamma \<and>
       getitem2 config ''others'' ''project'' = Inr project \<and>
       getitem2 config ''others'' ''group'' = Inr grp \<and>
       w' = w\<lparr>trace := trace w @
          [New (Adam ps (9 / 10, 999 / 1000) lr),
           New (MultiStepLR (Adam ps (9 / 10, 999 / 1000) lr) milestones gamma),
           New (Forcing loader rank),
           Call_train model loader train_loader (Adam ps (9 / 10, 999 / 1000) lr)
             (MultiStepLR (Adam ps (9 / 10, 999 / 1000) lr) milestones gamma)
             (Forcing loader rank) config rank (log a) project grp True]\<rparr>"
  by (auto simp: run_training_def run_simps)

lemma join_group_Inr:
  "join_group E rank a w = (Inr u, w') \<Longrightarrow>
     w' = w\<lparr>trace := trace w @ (if distributed a then [Call_setup rank (num_gpus a)] else [])\<rparr>"
  by (auto simp: join_group_def run_simps split: if_splits)

lemma leave_group_Inr:
  "leave_group E a w = (Inr u, w') \<Longrightarrow>
     w' = w\<lparr>trace := trace w @ (if distributed a then [Call_cleanup] else [])\<rparr>"
  by (auto simp: leave_group_def run_simps split: if_splits)

lemma getitem2_I: "getitem config s = Inr sec \<Longrightarrow> getitem2 config s k = getitem sec k"
  by (simp add: getitem2_def)

lemma build_Inr:
  assumes "build E rank a w = (Inr (config, loader, train_loader, model), w')"
  shows "\<exists>path dkvs tkvs d1 nx nt sub sub_t N ti n_sample offset shuffle batchsize
            modes1 modes2 modes3 fc_dim layers net.
     config_path a = Some path \<and> config = yaml_load E path \<and>
     getitem config ''data'' = Inr (PDict dkvs) \<and>
     getitem config ''train'' = Inr (PDict tkvs) \<and>
     map_of dkvs ''datapath'' = Some d1 \<and> map_of dkvs ''nx'' = Some nx \<and>
     map_of dkvs ''nt'' = Some nt \<and> map_of dkvs ''sub'' = Some sub \<and>
     map_of dkvs ''sub_t'' = Some sub_t \<and> map_of dkvs ''total_num'' = Some N \<and>
     map_of dkvs ''time_interval'' = Some ti \<and>
     map_of dkvs ''n_sample'' = Some n_sample \<and> map_of dkvs ''offset'' = Some offset \<and>
     map_of dkvs ''shuffle'' = Some shuffle \<and>
     map_of tkvs ''batchsize'' = Some batchsize \<and>
     getitem2 config ''model'' ''modes1'' = Inr modes1 \<and>
     getitem2 config ''model'' ''modes2'' = Inr modes2 \<and>
     getitem2 config ''model'' ''modes3'' = Inr modes3 \<and>
     getitem2 config ''model'' ''fc_dim'' = Inr fc_dim \<and>
     getitem2 config ''model'' ''layers'' = Inr layers \<and>
     loader = NSLoader d1 (map_of dkvs ''datapath2'') nx nt sub sub_t N ti \<and>
     train_loader = DataLoader (Dataset loader n_sample offset shuffle) batchsize
          (Sampler (Dataset loader n_sample offset shuffle) shuffle (distributed a)) True \<and>
     net = FNN3d E modes1 modes2 modes3 fc_dim layers \<and>
     model = (if distributed a then DDP net else net) \<and>
     (case map_of tkvs ''ckpt'' of
        None \<Rightarrow> ckpt_events E config net = []
      | Some p \<Rightarrow> \<exists>sd. getitem (torch_load E p) ''model'' = Inr sd \<and>
          ckpt_events E config net = [Call_torch_load p, Call_load_state_dict net sd, Print_weights_loaded p]) \<and>
     grad w' = grad w \<and>
     trace w' = trace w @
       [Print_running rank, Call_open path, Call_yaml_load path,
        New loader, New (Dataset loader n_sample offset shuffle),
        New (Sampler (Dataset loader n_sample offset shuffle) shuffle (distributed a)),
        New train_loader,
        Call_FNN3d modes1 modes2 modes3 fc_dim layers, Call_to net rank] @
       ckpt_events E config net @
       (if distributed a then [Call_DDP net [rank] False] else [])"
proof -
  from assms obtain w3 w4 w5 w6 w7 dc net where
    s2: "raises E (Print_running rank) = None" and
    s3: "load_config E a (w\<lparr>trace := trace w @ [Print_running rank]\<rparr>) = (Inr config, w3)" and
    s4: "getitem config ''data'' = Inr dc" and
    s5: "construct_loader E dc w3 = (Inr loader, w4)" and
    s6: "construct_train_loader E a config dc loader w4 = (Inr train_loader, w5)" and
    s7: "construct_model E rank config w5 = (Inr net, w6)" and
    s8: "load_ckpt E config net w6 = (Inr (), w7)" and
    s9: "wrap_model E rank a net w7 = (Inr model, w')"
    unfolding build_def by (auto simp: bnd_Inr_iff ret_iff lift_iff call_Inr_iff)
  from load_config_Inr[OF s3] obtain path where
    f3: "config_path a = Some path" "config = yaml_load E path"
        "w3 = w\<lparr>trace := trace w @ [Print_running rank]\<rparr>\<lparr>trace := trace (w\<lparr>trace := trace w @ [Print_running rank]\<rparr>) @ [Call_open path, Call_yaml_load path]\<rparr>"
    by blast
  from construct_loader_Inr[OF s5] obtain dkvs d1 nx nt sub sub_t N ti where
    f5: "dc = PDict dkvs" "map_of dkvs ''datapath'' = Some d1" "map_of dkvs ''nx'' = Some nx"
       "map_of dkvs ''nt'' = Some nt" "map_of dkvs ''sub'' = Some sub"
       "map_of dkvs ''sub_t'' = Some sub_t" "map_of dkvs ''total_num'' = Some N"
       "map_of dkvs ''time_interval'' = Some ti"
       "loader = NSLoader d1 (map_of dkvs ''datapath2'') nx nt sub sub_t N ti"
       "w4 = w3\<lparr>trace := trace w3 @ [New loader]\<rparr>"
    by blast
  from construct_train_loader_Inr[OF s6] obtain n_sample offset shuffle batchsize where
    f6: "getitem dc ''n_sample'' = Inr n_sample" "getitem dc ''offset'' = Inr offset"
       "getitem dc ''shuffle'' = Inr shuffle"
       "getitem2 config ''train'' ''batchsize'' = Inr batchsize"
       "train_loader = DataLoader (Dataset loader n_sample offset shuffle) batchsize
          (Sampler (Dataset loader n_sample offset shuffle) shuffle (distributed a)) True"
       "w5 = w4\<lparr>trace := trace w4 @
          [New (Dataset loader n_sample offset shuffle),
           New (Sampler (Dataset loader n_sample offset shuffle) shuffle (distributed a)),
           New train_loader]\<rparr>"
    by blast
  from f6(4) obtain tkvs where
    t: "getitem config ''train'' = Inr (PDict tkvs)" "map_of tkvs ''batchsize'' = Some batchsize"
    by (auto dest!: getitem2_Inr getitem_Inr)
  from f6(1-3) f5(1) have d: "map_of dkvs ''n_sample'' = Some n_sample"
     "map_of dkvs ''offset'' = Some offset" "map_of dkvs ''shuffle'' = Some shuffle"
    by (auto split: option.splits)
  from construct_model_Inr[OF s7] obtain modes1 modes2 modes3 fc_dim layers where
    f7: "getitem2 config ''model'' ''modes1'' = Inr modes1"
       "getitem2 config ''model'' ''modes2'' = Inr modes2"
       "getitem2 config ''model'' ''modes3'' = Inr modes3"
       "getitem2 config ''model'' ''fc_dim'' = Inr fc_dim"
       "getitem2 config ''model'' ''layers'' = Inr layers"
       "net = FNN3d E modes1 modes2 modes3 fc_dim layers"
       "w6 = w5\<lparr>trace := trace w5 @ [Call_FNN3d modes1 modes2 modes3 fc_dim layers, Call_to net rank]\<rparr>"
    by blast
  note f8 = load_ckpt_Inr[OF s8 t(1)]
  note f9 = wrap_model_Inr[OF s9]
  have tr: "trace w' = trace w @
       [Print_running rank, Call_open path, Call_yaml_load path,
        New loader, New (Dataset loader n_sample offset shuffle),
        New (Sampler (Dataset loader n_sample offset shuffle) shuffle (distributed a)),
        New train_loader,
        Call_FNN3d modes1 modes2 modes3 fc_dim layers, Call_to net rank] @
       ckpt_events E config net @
       (if distributed a then [Call_DDP net [rank] False] else [])"
    using f3(3) f5(10) f6(6) f7(7) f8 f9 by simp
  have gr: "grad w' = grad w"
    using f3(3) f5(10) f6(6) f7(7) f8 f9 by simp
  show ?thesis
    apply (rule exI[of _ path], rule exI[of _ dkvs], rule exI[of _ tkvs], rule exI[of _ d1],
           rule exI[of _ nx], rule exI[of _ nt], rule exI[of _ sub], rule exI[of _ sub_t],
           rule exI[of _ N], rule exI[of _ ti], rule exI[of _ n_sample], rule exI[of _ offset],
           rule exI[of _ shuffle], rule exI[of _ batchsize], rule exI[of _ modes1],
           rule exI[of _ modes2], rule exI[of _ modes3], rule exI[of _ fc_dim],
           rule exI[of _ layers], rule exI[of _ net])
    using f3(1,2) s4 f5 t d f7 f6(5) f8 f9 tr gr
    apply simp
    done
qed

subsection \<open>The freezing step on the wrapper, and whole runs\<close>

lemma finetune_params_DDP:
  "finetune_params E (DDP net) w =
     (case raises E (Call_requires_grad (DDP net) False) of
        Some e \<Rightarrow> (Inl e, w\<lparr>trace := trace w @ [Call_requires_grad (DDP net) False]\<rparr>)
      | None \<Rightarrow> (Inl (AttributeError ''DistributedDataParallel'' ''sp_convs''),
          w\<lparr>trace := trace w @ [Call_requires_grad (DDP net) False],
            grad := (\<lambda>p. if p \<in> set (parameters (DDP net)) then False else grad w p)\<rparr>))"
  by (simp add: finetune_params_def requires_grad_def modify_def bnd_def call_def lift_def Let_def getattr_DDP
           split: option.splits)

lemma finetune_DDP:
  "finetune E rank a (config, loader, train_loader, DDP net) w =
     (case raises E (Call_requires_grad (DDP net) False) of
        Some e \<Rightarrow> (Inl e, w\<lparr>trace := trace w @ [Call_requires_grad (DDP net) False]\<rparr>)
      | None \<Rightarrow> (Inl (AttributeError ''DistributedDataParallel'' ''sp_convs''),
          w\<lparr>trace := trace w @ [Call_requires_grad (DDP net) False],
            grad := (\<lambda>p. if p \<in> set (parameters (DDP net)) then False else grad w p)\<rparr>))"
  by (simp add: finetune_def bnd_def finetune_params_DDP split: option.splits)

lemma subprocess_fn_cases:
  assumes "subprocess_fn E rank a w = (r, w')"
  obtains (join_raised) e where "join_group E rank a w = (Inl e, w')" "r = Inl e"
  | (build_raised) e w0 where "join_group E rank a w = (Inr (), w0)"
      "build E rank a w0 = (Inl e, w')" "r = Inl e"
  | (built) config loader train_loader model w0 w1 where
      "join_group E rank a w = (Inr (), w0)"
      "build E rank a w0 = (Inr (config, loader, train_loader, model), w1)"
      "finetune E rank a (config, loader, train_loader, model) w1 = (r, w')"
proof -
  from bnd_cases[OF assms[unfolded subprocess_fn_def]]
  consider e where "join_group E rank a w = (Inl e, w')" "r = Inl e"
    | w0 where "join_group E rank a w = (Inr (), w0)"
        "bnd (build E rank a) (finetune E rank a) w0 = (r, w')"
    by auto
  then show thesis
  proof cases
    case 1 then show ?thesis by (rule join_raised)
  next
    case 2
    from bnd_cases[OF 2(2)] show ?thesis
    proof (elim disjE exE conjE)
      fix e assume "build E rank a w0 = (Inl e, w')" "r = Inl e"
      with 2(1) show ?thesis by (rule build_raised)
    next
      fix x w1 assume b: "build E rank a w0 = (Inr x, w1)" and f: "finetune E rank a x w1 = (r, w')"
      obtain config loader train_loader model where x: "x = (config, loader, train_loader, model)"
        by (cases x) auto
      from 2(1) b f show ?thesis unfolding x by (rule built)
    qed
  qed
qed

lemma finetune_Inr:
  assumes "finetune E rank a (config, loader, train_loader, model) w1 = (Inr u, w')"
  shows "\<not> (\<exists>net. model = DDP net \<and> distributed a) \<and>
    (\<exists>sp_convs sp_conv ws w_last fc1 fc2 lr milestones gamma project grp.
       getattr model ''sp_convs'' = Inr sp_convs \<and> getitem_last sp_convs = Inr sp_conv \<and>
       getattr model ''ws'' = Inr ws \<and> getitem_last ws = Inr w_last \<and>
       getattr model ''fc1'' = Inr fc1 \<and> getattr model ''fc2'' = Inr fc2 \<and>
       getitem2 config ''train'' ''base_lr'' = Inr lr \<and>
       getitem2 config ''train'' ''milestones'' = Inr milestones \<and>
       getitem2 config ''train'' ''scheduler_gamma'' = Inr gamma \<and>
       getitem2 config ''others'' ''project'' = Inr project \<and>
       getitem2 config ''others'' ''group'' = Inr grp \<and>
       (\<forall>p. grad w' p =
          (if p \<in> set (parameters sp_conv) \<union> set (parameters w_last) \<union>
                   set (parameters fc1) \<union> set (parameters fc2) then True
           else if p \<in> set (parameters model) then False else grad w1 p)) \<and>
       trace w' = trace w1 @
         [Call_requires_grad model False, Call_requires_grad sp_conv True,
          Call_requires_grad w_last True, Call_requires_grad fc1 True,
          Call_requires_grad fc2 True,
          New (Adam (filter (grad w') (parameters model)) (9 / 10, 999 / 1000) lr),
          New (MultiStepLR (Adam (filter (grad w') (parameters model)) (9 / 10, 999 / 1000) lr) milestones gamma),
          New (Forcing loader rank),
          Call_train model loader train_loader
            (Adam (filter (grad w') (parameters model)) (9 / 10, 999 / 1000) lr)
            (MultiStepLR (Adam (filter (grad w') (parameters model)) (9 / 10, 999 / 1000) lr) milestones gamma)
            (Forcing loader rank) config rank (log a) project grp True] @
         (if distributed a then [Call_cleanup] else []) @ [Print_done rank])"
proof -
  from assms obtain ps w2 w3 w4 where
    f: "finetune_params E model w1 = (Inr ps, w2)" and
    t: "run_training E rank a config loader train_loader model ps w2 = (Inr (), w3)" and
    c: "leave_group E a w3 = (Inr (), w4)" and
    d: "w' = w4\<lparr>trace := trace w4 @ [Print_done rank]\<rparr>"
    unfolding finetune_def by (auto simp: bnd_Inr_iff call_Inr_iff)
  have nd: "\<not> (\<exists>net. model = DDP net \<and> distributed a)"
  proof
    assume "\<exists>net. model = DDP net \<and> distributed a"
    then obtain net where "model = DDP net" by blast
    with f have "finetune_params E (DDP net) w1 = (Inr ps, w2)" by simp
    then show False by (simp add: finetune_params_DDP split: option.splits)
  qed
  from finetune_params_Inr[OF f] obtain sp_convs sp_conv ws w_last fc1 fc2 where
    ff: "getattr model ''sp_convs'' = Inr sp_convs" "getitem_last sp_convs = Inr sp_conv"
       "getattr model ''ws'' = Inr ws" "getitem_last ws = Inr w_last"
       "getattr model ''fc1'' = Inr fc1" "getattr model ''fc2'' = Inr fc2"
       "trace w2 = trace w1 @
          [Call_requires_grad model False, Call_requires_grad sp_conv True,
           Call_requires_grad w_last True, Call_requires_grad fc1 True,
           Call_requires_grad fc2 True]"
       "\<forall>p. grad w2 p =
          (if p \<in> set (parameters sp_conv) \<union> set (parameters w_last) \<union>
                   set (parameters fc1) \<union> set (parameters fc2) then True
           else if p \<in> set (parameters model) then False else grad w1 p)"
       "ps = filter (grad w2) (parameters model)"
    by blast
  from run_training_Inr[OF t] obtain lr milestones gamma project grp where
    tt: "getitem2 config ''train'' ''base_lr'' = Inr lr"
       "getitem2 config ''train'' ''milestones'' = Inr milestones"
       "getitem2 config ''train'' ''scheduler_gamma'' = Inr gamma"
       "getitem2 config ''others'' ''project'' = Inr project"
       "getitem2 config ''others'' ''group'' = Inr grp"
       "w3 = w2\<lparr>trace := trace w2 @
          [New (Adam ps (9 / 10, 999 / 1000) lr),
           New (MultiStepLR (Adam ps (9 / 10, 999 / 1000) lr) milestones gamma),
           New (Forcing loader rank),
           Call_train model loader train_loader (Adam ps (9 / 10, 999 / 1000) lr)
             (MultiStepLR (Adam ps (9 / 10, 999 / 1000) lr) milestones gamma)
             (Forcing loader rank) config rank (log a) project grp True]\<rparr>"
    by blast
  note cc = leave_group_Inr[OF c]
  have g: "grad w' = grad w2" using d cc tt(6) by simp
  have tr: "trace w' = trace w1 @
         [Call_requires_grad model False, Call_requires_grad sp_conv True,
          Call_requires_grad w_last True, Call_requires_grad fc1 True,
          Call_requires_grad fc2 True,
          New (Adam ps (9 / 10, 999 / 1000) lr),
          New (MultiStepLR (Adam ps (9 / 10, 999 / 1000) lr) milestones gamma),
          New (Forcing loader rank),
          Call_train model loader train_loader (Adam ps (9 / 10, 999 / 1000) lr)
            (MultiStepLR (Adam ps (9 / 10, 999 / 1000) lr) milestones gamma)
            (Forcing loader rank) config rank (log a) project grp True] @
         (if distributed a then [Call_cleanup] else []) @ [Print_done rank]"
    using d cc tt(6) ff(7) by simp
  show ?thesis
    apply (rule conjI[OF nd])
    apply (rule exI[of _ sp_convs], rule exI[of _ sp_conv],
           rule exI[of _ ws], rule exI[of _ w_last], rule exI[of _ fc1], rule exI[of _ fc2],
           rule exI[of _ lr], rule exI[of _ milestones], rule exI[of _ gamma],
           rule exI[of _ project], rule exI[of _ grp])
    using ff(1-6) tt(1-5) ff(8) tr unfolding ff(9) g
    apply simp
    done
qed

lemma subprocess_fn_Inr:
  assumes "subprocess_fn E rank a w = (Inr u, w')"
  obtains config loader train_loader model w1 where
    "\<not> distributed a"
    "build E rank a w = (Inr (config, loader, train_loader, model), w1)"
    "finetune E rank a (config, loader, train_loader, model) w1 = (Inr (), w')"
  using assms
proof (cases rule: subprocess_fn_cases)
  case (built config loader train_loader model w0 w1)
  from build_Inr[OF built(2)] obtain net where m: "model = (if distributed a then DDP net else net)"
    by blast
  from finetune_Inr[OF built(3)] m have nd: "\<not> distributed a"
    by (auto split: if_splits)
  with join_group_Inr[OF built(1)] have "w0 = w" by simp
  with built nd that show ?thesis by simp
qed simp_all

lemma join_group_trace:
  assumes "join_group E rank a w = (r, w0)"
  shows "trace w0 = trace w @ (if distributed a then [Call_setup rank (num_gpus a)] else [])"
  using assms by (auto simp: join_group_def call_def ret_def Let_def split: if_splits option.splits)

lemma appended:
  assumes "hoare E a lo hi m R" "m w = (r, w')"
  obtains evs where "trace w' = trace w @ evs" "post E a lo hi r evs"
  using hoareD[OF assms] by (elim conjE exE)




subsection \<open>The command line\<close>

lemma consume_args_Inr:
  "consume_args ts ns extras = Inr ns' \<Longrightarrow>
     \<not> extras \<and>
     (\<forall>t\<in>set ts. parse_optional t = Positional \<or>
        (\<exists>x. parse_optional t = Option Store_config_path x \<or>
             parse_optional t = Option Store_true_log x \<or>
             parse_optional t = Option Store_num_gpus x)) \<and>
     (log ns' \<longleftrightarrow> log ns \<or> (\<exists>t\<in>set ts. parse_optional t = Option Store_true_log None)) \<and>
     ((\<forall>t\<in>set ts. \<forall>x. parse_optional t \<noteq> Option Store_num_gpus x) \<longrightarrow> num_gpus ns' = num_gpus ns) \<and>
     ((\<forall>t\<in>set ts. \<forall>x. parse_optional t \<noteq> Option Store_config_path x) \<longrightarrow>
        config_path ns' = config_path ns)"
proof (induction ts ns extras rule: consume_args.induct)
  case (1 ns extras)
  then show ?case by (simp split: if_splits)
next
  case (2 t ts ns extras)
  show ?case
  proof (cases "parse_optional t")
    case Positional
    with "2.IH"(1) "2.prems" show ?thesis by simp
  next
    case Unrecognized
    with "2.IH"(2) "2.prems" show ?thesis by simp
  next
    case Ambiguous
    with "2.prems" show ?thesis by simp
  next
    case (Option act explicit)
    show ?thesis
    proof (cases act)
      case Help
      with "2.prems" Option show ?thesis by simp
    next
      case Store_true_log
      show ?thesis
      proof (cases explicit)
        case None
        from "2.prems" Option Store_true_log None
        have run: "consume_args ts (ns\<lparr>log := True\<rparr>) extras = Inr ns'" by simp
        from "2.IH"(4)[OF Option Store_true_log None run] Option Store_true_log None
        show ?thesis by auto
      next
        case (Some v)
        with "2.prems" Option Store_true_log show ?thesis by simp
      qed
    next
      case Store_config_path
      with "2.prems" Option obtain v rest where
        tv: "take_value explicit ts = Some (v, rest)" and
        run: "consume_args rest (ns\<lparr>config_path := Some v\<rparr>) extras = Inr ns'"
        by (auto split: option.splits)
      note ih = "2.IH"(3)[OF Option Store_config_path tv refl run]
      from tv have "rest = ts \<or> (ts = v # rest \<and> parse_optional v = Positional)"
        by (auto simp: take_value_def split: option.splits list.splits if_splits)
      with ih Option Store_config_path show ?thesis by auto
    next
      case Store_num_gpus
      with "2.prems" Option obtain v rest n where
        tv: "take_value explicit ts = Some (v, rest)" and n: "py_int v = Some n" and
        run: "consume_args rest (ns\<lparr>num_gpus := n\<rparr>) extras = Inr ns'"
        by (auto split: option.splits)
      note ih = "2.IH"(5)[OF Option Store_num_gpus tv refl n run]
      from tv have "rest = ts \<or> (ts = v # rest \<and> parse_optional v = Positional)"
        by (auto simp: take_value_def split: option.splits list.splits if_splits)
      with ih Option Store_num_gpus show ?thesis by auto
    qed
  qed
qed

subsection \<open>The sample runs\<close>

lemma bnd_lift: "bnd (lift v) f w = (case v of Inl e \<Rightarrow> (Inl e, w) | Inr x \<Rightarrow> f x w)"
  by (simp add: bnd_def lift_def split: sum.splits)

lemma bnd_ret: "bnd (ret x) f w = f x w"
  by (simp add: bnd_def ret_def)

lemma bnd_call: "bnd (call E ev) f w =
   (case raises E ev of Some e \<Rightarrow> (Inl e, w\<lparr>trace := trace w @ [ev]\<rparr>)
    | None \<Rightarrow> f () (w\<lparr>trace := trace w @ [ev]\<rparr>))"
  by (simp add: bnd_def call_def Let_def split: option.splits)

lemma bnd_new: "bnd (new E ob) f w =
   (case raises E (New ob) of Some e \<Rightarrow> (Inl e, w\<lparr>trace := trace w @ [New ob]\<rparr>)
    | None \<Rightarrow> f ob (w\<lparr>trace := trace w @ [New ob]\<rparr>))"
  by (simp add: bnd_def new_def call_def ret_def Let_def split: option.splits)

lemma bnd_requires_grad: "bnd (requires_grad E m flag) f w =
   (case raises E (Call_requires_grad m flag) of
      Some e \<Rightarrow> (Inl e, w\<lparr>trace := trace w @ [Call_requires_grad m flag]\<rparr>)
    | None \<Rightarrow> f () (w\<lparr>trace := trace w @ [Call_requires_grad m flag],
                    grad := (\<lambda>p. if p \<in> set (parameters m) then flag else grad w p)\<rparr>))"
  by (simp add: bnd_def requires_grad_def modify_def call_def Let_def split: option.splits)

lemma call_run: "call E ev w =
   (case raises E ev of Some e \<Rightarrow> (Inl e, w\<lparr>trace := trace w @ [ev]\<rparr>)
    | None \<Rightarrow> (Inr (), w\<lparr>trace := trace w @ [ev]\<rparr>))"
  by (simp add: call_def Let_def split: option.splits)

lemma new_run: "new E ob w =
   (case raises E (New ob) of Some e \<Rightarrow> (Inl e, w\<lparr>trace := trace w @ [New ob]\<rparr>)
    | None \<Rightarrow> (Inr ob, w\<lparr>trace := trace w @ [New ob]\<rparr>))"
  by (simp add: new_def bnd_call ret_def split: option.splits)

lemma ret_run: "ret x w = (Inr x, w)"
  by (simp add: ret_def)

lemma lift_run: "lift v w = (v, w)"
  by (simp add: lift_def)

lemma gets_run: "gets f w = (Inr (f w), w)"
  by (simp add: gets_def)

lemmas run_eval = bnd_lift bnd_ret bnd_call bnd_new bnd_requires_grad call_run new_run ret_run
  lift_run gets_run

lemma example_env_simps:
  "raises example_env ev = None" "yaml_load example_env path = example_config"
  "FNN3d example_env m1 m2 m3 fc ly = example_net"
  "torch_load example_env p = PDict [(''model'', PDict [])]"
  by (simp_all add: example_env_def)

lemma example_args_simps:
  "config_path (example_args n) = Some ''finetune.yaml''" "log (example_args n) = False"
  "num_gpus (example_args n) = n" "distributed (example_args n) = (n > 1)"
  by (simp_all add: example_args_def)

lemma example_sections:
  "getitem example_config ''data'' = Inr example_data"
  "getitem example_config ''model'' = Inr example_model"
  "getitem example_config ''train'' = Inr example_train"
  "getitem example_config ''others'' = Inr example_others"
  by (simp_all add: example_config_def)

lemma example_load_config:
  "load_config example_env (example_args n) w =
     (Inr example_config, w\<lparr>trace := trace w @ [Call_open ''finetune.yaml'', Call_yaml_load ''finetune.yaml'']\<rparr>)"
  by (simp add: load_config_def run_eval example_env_simps example_args_simps)

lemma example_construct_loader:
  "construct_loader example_env example_data w =
     (Inr example_loader, w\<lparr>trace := trace w @ [New example_loader]\<rparr>)"
  by (simp add: construct_loader_def run_eval example_env_simps example_data_def example_loader_def)

lemma example_construct_train_loader:
  "construct_train_loader example_env (example_args n) example_config example_data example_loader w =
     (Inr (example_train_loader (n > 1)),
      w\<lparr>trace := trace w @ [New example_trainset, New (Sampler example_trainset (PBool True) (n > 1)),
         New (example_train_loader (n > 1))]\<rparr>)"
  by (simp add: construct_train_loader_def run_eval example_env_simps example_args_simps
       getitem2_def example_sections example_trainset_def example_train_loader_def
       example_data_def example_train_def)

lemma example_construct_model:
  "construct_model example_env rank example_config w =
     (Inr example_net, w\<lparr>trace := trace w @
        [Call_FNN3d (PList [PInt 8, PInt 8]) (PList [PInt 8, PInt 8]) (PList [PInt 8, PInt 8])
           (PInt 128) (PList [PInt 64, PInt 64, PInt 64]),
         Call_to example_net rank]\<rparr>)"
  by (simp add: construct_model_def run_eval example_env_simps getitem2_def example_sections
       example_model_def)

lemma example_load_ckpt:
  "load_ckpt example_env example_config example_net w =
     (Inr (), w\<lparr>trace := trace w @
        [Call_torch_load (PStr ''checkpoints/pretrain.pt''),
         Call_load_state_dict example_net (PDict []),
         Print_weights_loaded (PStr ''checkpoints/pretrain.pt'')]\<rparr>)"
  by (simp add: load_ckpt_def run_eval example_env_simps getitem2_def example_sections
       example_train_def)

lemma bnd_apply:
  "bnd m f w = (case m w of (Inl e, w') \<Rightarrow> (Inl e, w') | (Inr x, w') \<Rightarrow> f x w')"
  by (simp add: bnd_def)

lemma example_wrap_model:
  "wrap_model example_env rank (example_args n) example_net w =
     (if n > 1 then (Inr (DDP example_net), w\<lparr>trace := trace w @ [Call_DDP example_net [rank] False]\<rparr>)
      else (Inr example_net, w))"
  by (simp add: wrap_model_def run_eval example_env_simps example_args_simps)

lemmas example_phases = example_load_config example_construct_loader example_construct_train_loader
  example_construct_model example_load_ckpt example_wrap_model

lemma example_build:
  "build example_env rank (example_args n) w =
     (Inr (example_config, example_loader, example_train_loader (n > 1),
           if n > 1 then DDP example_net else example_net),
      w\<lparr>trace := trace w @
        [Print_running rank, Call_open ''finetune.yaml'', Call_yaml_load ''finetune.yaml'',
         New example_loader, New example_trainset,
         New (Sampler example_trainset (PBool True) (n > 1)), New (example_train_loader (n > 1)),
         Call_FNN3d (PList [PInt 8, PInt 8]) (PList [PInt 8, PInt 8]) (PList [PInt 8, PInt 8])
           (PInt 128) (PList [PInt 64, PInt 64, PInt 64]),
         Call_to example_net rank,
         Call_torch_load (PStr ''checkpoints/pretrain.pt''),
         Call_load_state_dict example_net (PDict []),
         Print_weights_loaded (PStr ''checkpoints/pretrain.pt'')] @
        (if n > 1 then [Call_DDP example_net [rank] False] else [])\<rparr>)"
  unfolding build_def
  by (simp add: bnd_apply call_run ret_run lift_run example_phases example_env_simps
        example_args_simps example_sections)

lemma example_join_group:
  "join_group example_env rank (example_args n) w =
     (Inr (), w\<lparr>trace := trace w @ (if n > 1 then [Call_setup rank n] else [])\<rparr>)"
  by (simp add: join_group_def call_run ret_run example_env_simps example_args_simps)

lemma example_net_lookups:
  "getattr example_net ''sp_convs'' = Inr (Module ''ModuleList'' []
         [(''0'', Module ''SpectralConv3d'' [2] []), (''1'', Module ''SpectralConv3d'' [3] [])])"
  "getattr example_net ''ws'' = Inr (Module ''ModuleList'' []
         [(''0'', Module ''Conv1d'' [4, 5] []), (''1'', Module ''Conv1d'' [6, 7] [])])"
  "getattr example_net ''fc1'' = Inr (Module ''Linear'' [8, 9] [])"
  "getattr example_net ''fc2'' = Inr (Module ''Linear'' [10, 11] [])"
  "parameters example_net = [0, 1, 2, 3, 4, 5, 6, 7, 8, 9, 10, 11]"
  by (simp_all add: getattr_def example_net_def parameters_def)






lemma example_DDP_parameters: "parameters (DDP example_net) = [0, 1, 2, 3, 4, 5, 6, 7, 8, 9, 10, 11]"
  by (simp add: parameters_def DDP_def example_net_def)

lemma example_run_distributed:
  "fst (subprocess_fn example_env rank (example_args 2) world0) =
     Inl (AttributeError ''DistributedDataParallel'' ''sp_convs'')"
  "trace (snd (subprocess_fn example_env rank (example_args 2) world0)) =
     [Call_setup rank 2,
      Print_running rank, Call_open ''finetune.yaml'', Call_yaml_load ''finetune.yaml'',
      New example_loader, New example_trainset,
      New (Sampler example_trainset (PBool True) True), New (example_train_loader True),
      Call_FNN3d (PList [PInt 8, PInt 8]) (PList [PInt 8, PInt 8]) (PList [PInt 8, PInt 8])
        (PInt 128) (PList [PInt 64, PInt 64, PInt 64]),
      Call_to example_net rank,
      Call_torch_load (PStr ''checkpoints/pretrain.pt''),
      Call_load_state_dict example_net (PDict []),
      Print_weights_loaded (PStr ''checkpoints/pretrain.pt''),
      Call_DDP example_net [rank] False,
      Call_requires_grad (DDP example_net) False]"
  "map (grad (snd (subprocess_fn example_env rank (example_args 2) world0))) (parameters example_net) =
     [False, False, False, False, False, False, False, False, False, False, False, False]"
  unfolding subprocess_fn_def
    apply (simp add: bnd_apply example_join_group example_build finetune_DDP example_env_simps world0_def)
   apply (simp add: bnd_apply example_join_group example_build finetune_DDP example_env_simps world0_def)
  apply (simp add: bnd_apply example_join_group example_build finetune_DDP example_env_simps world0_def
            example_DDP_parameters example_net_lookups)
  done

lemma example_parse:
  "parse_args [''--config_path'', ''finetune.yaml''] =
     Inr \<lparr>config_path = Some ''finetune.yaml'', log = False, num_gpus = 1\<rparr>"
  "parse_args [''--config_path'', ''finetune.yaml'', ''--num_gpus'', ''2''] =
     Inr \<lparr>config_path = Some ''finetune.yaml'', log = False, num_gpus = 2\<rparr>"
  "parse_args [''--config_path=finetune.yaml'', ''--log''] =
     Inr \<lparr>config_path = Some ''finetune.yaml'', log = True, num_gpus = 1\<rparr>"
  by (simp_all add: parse_args_def parse_optional_def option_strings_def take_value_def py_int_def
        digit_val_def negative_number_def is_digit_def)

subsection \<open>The claims\<close>

lemma run_hoare:
  assumes "subprocess_fn E rank a world0 = (r, w)"
  shows "post E a 0 20 r (trace w)"
proof -
  from appended[OF subprocess_fn_hoare assms] obtain evs where
    "trace w = trace world0 @ evs" "post E a 0 20 r evs" .
  then show ?thesis by (simp add: world0_def)
qed

lemma run_event:
  assumes "subprocess_fn E rank a world0 = (r, w)" and "ev \<in> set (trace w)"
  shows "ev_ok E a ev" and "\<And>e. raises E ev = Some e \<Longrightarrow> r = Inl e"
  using run_hoare[OF assms(1)] assms(2) unfolding post_def by blast+


lemma distributed_never_returns:
  "distributed a \<Longrightarrow> fst (subprocess_fn E rank a w) \<noteq> Inr ()"
proof
  assume d: "distributed a" and "fst (subprocess_fn E rank a w) = Inr ()"
  then have "subprocess_fn E rank a w = (Inr (), snd (subprocess_fn E rank a w))"
    by (metis prod.collapse)
  from subprocess_fn_Inr[OF this] d show False by blast
qed

lemma distributed_first_event:
  assumes "distributed a" "subprocess_fn E rank a world0 = (r, w)"
  shows "\<exists>rest. trace w = Call_setup rank (num_gpus a) # rest"
  using assms(2)
proof (cases rule: subprocess_fn_cases)
  case (join_raised e)
  from join_group_trace[OF join_raised(1)] assms(1) show ?thesis by (simp add: world0_def)
next
  case (build_raised e w0)
  from appended[OF build_hoare build_raised(2)] obtain evs where "trace w = trace w0 @ evs" .
  with join_group_trace[OF build_raised(1)] assms(1) show ?thesis by (simp add: world0_def)
next
  case (built config loader train_loader model w0 w1)
  from appended[OF build_hoare built(2)] obtain evs1 where e1: "trace w1 = trace w0 @ evs1" .
  from hoareD[OF build_hoare built(2)] have "model_ok E a model" by simp
  from appended[OF finetune_hoare[OF this] built(3)] obtain evs2 where "trace w = trace w1 @ evs2" .
  with e1 join_group_trace[OF built(1)] assms(1) show ?thesis by (simp add: world0_def)
qed

lemma local_run_events:
  assumes "\<not> distributed a" "subprocess_fn E rank a world0 = (r, w)" "ev \<in> set (trace w)"
  shows "(\<forall>rk n. ev \<noteq> Call_setup rk n) \<and> ev \<noteq> Call_cleanup \<and> (\<forall>net ranks b. ev \<noteq> Call_DDP net ranks b)"
proof -
  from run_event(1)[OF assms(2,3)] assms(1)
  have "stage ev \<noteq> 0 \<and> stage ev \<noteq> 13 \<and> stage ev \<noteq> 19" by (simp add: ev_ok_def)
  then show ?thesis by auto
qed

text \<open>
  Claim C3: exactly when \<^verbatim>\<open>--num_gpus\<close> is greater than 1 the program spawns
  \<^verbatim>\<open>num_gpus\<close> workers with the ranks \<open>0\<close> to \<open>num_gpus - 1\<close>, each of which calls
  \<^verbatim>\<open>setup(rank, num_gpus)\<close> before anything else; otherwise the function runs once
  with rank 0 in the main process and neither \<^verbatim>\<open>setup\<close> nor \<^verbatim>\<open>cleanup\<close> is called.
\<close>

theorem main_spawns:
  assumes "parse_args argv = Inr ns"
  shows "(1 < num_gpus ns \<longrightarrow>
            main E argv = Spawned (map (\<lambda>rank. subprocess_fn E rank (with_distributed ns) world0)
                                     [0..<nat (num_gpus ns)]) \<and>
            (\<forall>rank<nat (num_gpus ns). \<exists>rest.
               trace (snd (subprocess_fn E rank (with_distributed ns) world0)) =
                 Call_setup rank (num_gpus ns) # rest)) \<and>
         (\<not> 1 < num_gpus ns \<longrightarrow>
            main E argv = Direct (subprocess_fn E 0 (with_distributed ns) world0) \<and>
            (\<forall>ev\<in>set (trace (snd (subprocess_fn E 0 (with_distributed ns) world0))).
               (\<forall>rank n. ev \<noteq> Call_setup rank n) \<and> ev \<noteq> Call_cleanup))"
proof (intro conjI impI allI ballI)
  assume "1 < num_gpus ns"
  then show "main E argv = Spawned (map (\<lambda>rank. subprocess_fn E rank (with_distributed ns) world0)
                                     [0..<nat (num_gpus ns)])"
    using assms by (simp add: main_def with_distributed_def)
next
  fix rank assume "1 < num_gpus ns"
  then have d: "distributed (with_distributed ns)" by (simp add: with_distributed_def)
  from distributed_first_event[OF d prod.collapse[symmetric]]
  show "\<exists>rest. trace (snd (subprocess_fn E rank (with_distributed ns) world0)) =
                 Call_setup rank (num_gpus ns) # rest"
    by (simp add: with_distributed_def)
next
  assume "\<not> 1 < num_gpus ns"
  then show "main E argv = Direct (subprocess_fn E 0 (with_distributed ns) world0)"
    using assms by (simp add: main_def with_distributed_def)
next
  fix ev rank n
  assume n: "\<not> 1 < num_gpus ns"
    and ev: "ev \<in> set (trace (snd (subprocess_fn E 0 (with_distributed ns) world0)))"
  from n have d: "\<not> distributed (with_distributed ns)" by (simp add: with_distributed_def)
  from local_run_events[OF d prod.collapse[symmetric] ev]
  show "ev \<noteq> Call_setup rank n" by blast
next
  fix ev
  assume n: "\<not> 1 < num_gpus ns"
    and ev: "ev \<in> set (trace (snd (subprocess_fn E 0 (with_distributed ns) world0)))"
  from n have d: "\<not> distributed (with_distributed ns)" by (simp add: with_distributed_def)
  from local_run_events[OF d prod.collapse[symmetric] ev]
  show "ev \<noteq> Call_cleanup" by blast
qed

theorem main_spawns_witness:
  "parse_args [''--config_path'', ''finetune.yaml'', ''--num_gpus'', ''2''] =
     Inr \<lparr>config_path = Some ''finetune.yaml'', log = False, num_gpus = 2\<rparr> \<and>
   main example_env [''--config_path'', ''finetune.yaml'', ''--num_gpus'', ''2''] =
     Spawned [subprocess_fn example_env 0 (example_args 2) world0,
              subprocess_fn example_env 1 (example_args 2) world0] \<and>
   (\<exists>rest. trace (snd (subprocess_fn example_env 0 (example_args 2) world0)) = Call_setup 0 2 # rest) \<and>
   (\<exists>rest. trace (snd (subprocess_fn example_env 1 (example_args 2) world0)) = Call_setup 1 2 # rest)"
proof -
  have w: "with_distributed \<lparr>config_path = Some ''finetune.yaml'', log = False, num_gpus = 2\<rparr> = example_args 2"
    by (simp add: with_distributed_def example_args_def)
  have u: "[0..<2::nat] = [0, 1]" by (simp add: upt_rec)
  from main_spawns[OF example_parse(2), of example_env] example_parse(2) show ?thesis
    by (simp add: w u)
qed

text \<open>
  Claim C10: without \<^verbatim>\<open>--num_gpus\<close> the value is 1, the run is not distributed, the
  function is called once with rank 0 in the main process, nothing is spawned, and
  there is no call of \<^verbatim>\<open>setup\<close>, \<^verbatim>\<open>cleanup\<close> or \<^verbatim>\<open>DistributedDataParallel\<close>.
\<close>

theorem default_single_process:
  assumes "parse_args argv = Inr ns"
    and "\<forall>t\<in>set argv. \<forall>x. parse_optional t \<noteq> Option Store_num_gpus x"
  shows "num_gpus ns = 1 \<and> \<not> distributed (with_distributed ns) \<and>
         main E argv = Direct (subprocess_fn E 0 (with_distributed ns) world0) \<and>
         (\<forall>ev\<in>set (trace (snd (subprocess_fn E 0 (with_distributed ns) world0))).
            (\<forall>rank n. ev \<noteq> Call_setup rank n) \<and> ev \<noteq> Call_cleanup \<and>
            (\<forall>net ranks b. ev \<noteq> Call_DDP net ranks b))"
proof -
  from consume_args_Inr[OF assms(1)[unfolded parse_args_def]] assms(2)
  have n: "num_gpus ns = 1" by simp
  then have d: "\<not> distributed (with_distributed ns)" by (simp add: with_distributed_def)
  have m: "main E argv = Direct (subprocess_fn E 0 (with_distributed ns) world0)"
    using assms(1) d by (simp add: main_def)
  have "\<forall>ev\<in>set (trace (snd (subprocess_fn E 0 (with_distributed ns) world0))).
            (\<forall>rank n. ev \<noteq> Call_setup rank n) \<and> ev \<noteq> Call_cleanup \<and>
            (\<forall>net ranks b. ev \<noteq> Call_DDP net ranks b)"
    using local_run_events[OF d prod.collapse[symmetric]] by blast
  with n d m show ?thesis by blast
qed

lemma example_tokens:
  "parse_optional ''--config_path'' = Option Store_config_path None"
  "parse_optional ''--num_gpus'' = Option Store_num_gpus None"
  "parse_optional ''--log'' = Option Store_true_log None"
  "parse_optional ''finetune.yaml'' = Positional"
  "parse_optional ''--config_path=finetune.yaml'' = Option Store_config_path (Some ''finetune.yaml'')"
  by (simp_all add: parse_optional_def option_strings_def)

theorem default_single_process_witness:
  "parse_args [''--config_path'', ''finetune.yaml''] =
     Inr \<lparr>config_path = Some ''finetune.yaml'', log = False, num_gpus = 1\<rparr> \<and>
   parse_optional ''--config_path'' = Option Store_config_path None \<and>
   parse_optional ''finetune.yaml'' = Positional \<and>
   \<not> distributed (example_args 1) \<and>
   main example_env [''--config_path'', ''finetune.yaml''] =
     Direct (subprocess_fn example_env 0 (example_args 1) world0)"
proof -
  have w: "with_distributed \<lparr>config_path = Some ''finetune.yaml'', log = False, num_gpus = 1\<rparr> = example_args 1"
    by (simp add: with_distributed_def example_args_def)
  have t: "\<forall>t\<in>set [''--config_path'', ''finetune.yaml'']. \<forall>x. parse_optional t \<noteq> Option Store_num_gpus x"
    by (simp add: example_tokens)
  from default_single_process[OF example_parse(1) t, of example_env] example_parse(1)
  show ?thesis unfolding w by (simp add: example_tokens)
qed

























lemma finetune_params_policy:
  assumes "finetune_params E model w = (Inr ps, w')"
  shows "\<exists>sp_conv w_last fc1 fc2. unfrozen_of model sp_conv \<and> unfrozen_of model w_last \<and>
      unfrozen_of model fc1 \<and> unfrozen_of model fc2 \<and>
      (\<forall>p\<in>set (parameters model).
          (grad w' p \<longleftrightarrow> p \<in> set (parameters sp_conv) \<union> set (parameters w_last) \<union>
                              set (parameters fc1) \<union> set (parameters fc2)) \<and>
          (p \<in> set ps \<longleftrightarrow> grad w' p))"
proof -
  from finetune_params_Inr[OF assms] obtain sp_convs sp_conv ws w_last fc1 fc2 where
    l: "getattr model ''sp_convs'' = Inr sp_convs" "getitem_last sp_convs = Inr sp_conv"
       "getattr model ''ws'' = Inr ws" "getitem_last ws = Inr w_last"
       "getattr model ''fc1'' = Inr fc1" "getattr model ''fc2'' = Inr fc2" and
    g: "\<forall>p. grad w' p =
          (if p \<in> set (parameters sp_conv) \<union> set (parameters w_last) \<union>
                   set (parameters fc1) \<union> set (parameters fc2) then True
           else if p \<in> set (parameters model) then False else grad w p)" and
    p: "ps = filter (grad w') (parameters model)"
    by (elim exE conjE) (rule that)
  have u: "unfrozen_of model sp_conv" "unfrozen_of model w_last" "unfrozen_of model fc1"
    "unfrozen_of model fc2"
    using l by (simp_all add: unfrozen_of_def)
  have "\<forall>p\<in>set (parameters model).
          (grad w' p \<longleftrightarrow> p \<in> set (parameters sp_conv) \<union> set (parameters w_last) \<union>
                              set (parameters fc1) \<union> set (parameters fc2)) \<and>
          (p \<in> set ps \<longleftrightarrow> grad w' p)"
    using g p by simp
  with u show ?thesis by blast
qed

text \<open>
  Claim C1: after the model is built, the function freezes the whole model and then
  re-enables gradients for \<^verbatim>\<open>sp_convs[-1]\<close>, \<^verbatim>\<open>ws[-1]\<close>, \<^verbatim>\<open>fc1\<close> and \<^verbatim>\<open>fc2\<close>, and only
  their parameters reach \<^verbatim>\<open>Adam\<close>. With two GPUs the sample run does not get there:
  both workers end in \<open>AttributeError\<close> on the wrapper's \<^verbatim>\<open>sp_convs\<close>, the last call is
  the first \<^verbatim>\<open>requires_grad\<close> (position 14), no optimizer is built, and every
  parameter is left frozen. The preceding lemma is the claim on the path where
  \<^verbatim>\<open>model\<close> is the network itself.
\<close>

theorem distributed_finetune_fails:
  "main example_env [''--config_path'', ''finetune.yaml'', ''--num_gpus'', ''2''] =
     Spawned [subprocess_fn example_env 0 (example_args 2) world0,
              subprocess_fn example_env 1 (example_args 2) world0] \<and>
   fst (subprocess_fn example_env 0 (example_args 2) world0) =
     Inl (AttributeError ''DistributedDataParallel'' ''sp_convs'') \<and>
   fst (subprocess_fn example_env 1 (example_args 2) world0) =
     Inl (AttributeError ''DistributedDataParallel'' ''sp_convs'') \<and>
   map stage (trace (snd (subprocess_fn example_env 0 (example_args 2) world0))) =
     [0, 1, 2, 3, 4, 5, 6, 7, 8, 9, 10, 11, 12, 13, 14] \<and>
   map (grad (snd (subprocess_fn example_env 0 (example_args 2) world0))) (parameters example_net) =
     [False, False, False, False, False, False, False, False, False, False, False, False]"
proof -
  have w: "with_distributed \<lparr>config_path = Some ''finetune.yaml'', log = False, num_gpus = 2\<rparr> = example_args 2"
    by (simp add: with_distributed_def example_args_def)
  have u: "[0..<2::nat] = [0, 1]" by (simp add: upt_rec)
  have m: "main example_env [''--config_path'', ''finetune.yaml'', ''--num_gpus'', ''2''] =
     Spawned [subprocess_fn example_env 0 (example_args 2) world0,
              subprocess_fn example_env 1 (example_args 2) world0]"
    by (simp add: main_def example_parse w u example_args_simps)
  have s: "map stage (trace (snd (subprocess_fn example_env 0 (example_args 2) world0))) =
     [0, 1, 2, 3, 4, 5, 6, 7, 8, 9, 10, 11, 12, 13, 14]"
    by (simp add: example_run_distributed example_loader_def example_trainset_def
          example_train_loader_def)
  from m s example_run_distributed(1,3) show ?thesis by simp
qed



end
